theory Spec2Isabelle
  imports
    Main
    "HOL-Library.Word"
    "HOL-Library.Char_ord"
    "HOL-Library.List_Lexorder"
    "HOL-Library.Product_Lexorder"
    "HOL-Library.Multiset"
    "HOL-Library.AList"
begin

unbundle bit_operations_syntax

section \<open>The build pipeline of esm.sh (server/build.go)\<close>

text \<open>
  The theory embeds the function \<open>build\<close> of \<open>server/build.go\<close>: the computation of the
  build identifier, the lookup in the artifact cache, the resolution of the package
  manifests, the classification of peer dependencies, the bundler retry loop, the
  post-processing of the bundle and the final commit. Go strings are byte strings and are
  modelled as \<open>string\<close> (a list of 8-bit characters). Everything \<open>build\<close> calls outside its
  own file (the registry, the installer, the bundler, the key/value store, the file system)
  is an explicit argument of the model.
\<close>

subsection \<open>Functions of the Go standard library that build calls\<close>

type_synonym byte = "8 word"

text \<open>\<open>fmt\<close>: the verbs \<open>%d\<close> on a non-negative integer and \<open>%v\<close> on a boolean.\<close>

fun fmt_d :: "nat \<Rightarrow> string" where
  "fmt_d n = (if n < 10 then [char_of (48 + n)] else fmt_d (n div 10) @ [char_of (48 + n mod 10)])"

declare fmt_d.simps [simp del]

definition fmt_v :: "bool \<Rightarrow> string" where
  "fmt_v b = (if b then ''true'' else ''false'')"

text \<open>
  \<open>strings.ReplaceAll\<close> and \<open>bytes.ReplaceAll\<close>: the non-overlapping occurrences of \<open>old\<close>
  are replaced from left to right. Every call in \<open>build\<close> passes a non-empty \<open>old\<close>; for
  an empty one the model returns the string unchanged.
\<close>

function strings_ReplaceAll :: "string \<Rightarrow> string \<Rightarrow> string \<Rightarrow> string" where
  "strings_ReplaceAll s old new =
     (if s = [] \<or> old = [] then s
      else if take (length old) s = old then new @ strings_ReplaceAll (drop (length old) s) old new
      else hd s # strings_ReplaceAll (tl s) old new)"
  by pat_completeness auto
termination
  by (relation "measure (\<lambda>(s, old, new). length s)") auto

declare strings_ReplaceAll.simps [simp del]

text \<open>\<open>strings.HasPrefix\<close>, \<open>strings.HasSuffix\<close> and \<open>bytes.Contains\<close>.\<close>

definition strings_HasPrefix :: "string \<Rightarrow> string \<Rightarrow> bool" where
  "strings_HasPrefix s p = (take (length p) s = p)"

definition strings_HasSuffix :: "string \<Rightarrow> string \<Rightarrow> bool" where
  "strings_HasSuffix s p = (length p \<le> length s \<and> drop (length s - length p) s = p)"

fun bytes_Contains :: "string \<Rightarrow> string \<Rightarrow> bool" where
  "bytes_Contains [] sub = (sub = [])"
| "bytes_Contains (c # s) sub = (take (length sub) (c # s) = sub \<or> bytes_Contains s sub)"

text \<open>\<open>strings.ToLower\<close> on the ASCII output of the base32 encoder.\<close>

definition to_lower :: "char \<Rightarrow> char" where
  "to_lower c = (if CHR ''A'' \<le> c \<and> c \<le> CHR ''Z'' then char_of (of_char c + (32 :: nat)) else c)"

definition strings_ToLower :: "string \<Rightarrow> string" where
  "strings_ToLower s = map to_lower s"

text \<open>
  \<open>path.Base\<close>: the last element of a path; trailing slashes are dropped first, the empty
  path gives \<open>.\<close> and a path of slashes only gives \<open>/\<close>.
\<close>

definition path_Base :: "string \<Rightarrow> string" where
  "path_Base p =
     (if p = [] then ''.''
      else let q = rev (dropWhile (\<lambda>c. c = CHR ''/'') (rev p));
               r = rev (takeWhile (\<lambda>c. c \<noteq> CHR ''/'') (rev q))
           in if r = [] then ''/'' else r)"

text \<open>
  \<open>strings.Split\<close> with a separator of one byte, then \<open>path.Clean\<close> and \<open>path.Join\<close>. \<open>Clean\<close> works on the elements between slashes: empty
  elements and \<open>.\<close> are dropped, \<open>..\<close> removes the element before it, is kept at the front
  of a relative path and is dropped at the root; an empty result is \<open>.\<close>. \<open>Join\<close> ignores
  empty arguments, puts slashes between the others and cleans the result; when all
  arguments are empty it returns the empty string.
\<close>

fun strings_Split :: "string \<Rightarrow> char \<Rightarrow> string list" where
  "strings_Split [] sep = [[]]"
| "strings_Split (c # s) sep =
     (if c = sep then [] # strings_Split s sep
      else (case strings_Split s sep of [] \<Rightarrow> [[c]] | e # es \<Rightarrow> (c # e) # es))"

fun join_slash :: "string list \<Rightarrow> string" where
  "join_slash [] = []"
| "join_slash [e] = e"
| "join_slash (e # es) = e @ ''/'' @ join_slash es"

definition clean_step :: "bool \<Rightarrow> string list \<Rightarrow> string \<Rightarrow> string list" where
  "clean_step rooted out e =
     (if e = [] \<or> e = ''.'' then out
      else if e = ''..'' then
        (if out \<noteq> [] \<and> last out \<noteq> ''..'' then butlast out
         else if \<not> rooted then out @ [''..'']
         else out)
      else out @ [e])"

definition path_Clean :: "string \<Rightarrow> string" where
  "path_Clean p =
     (if p = [] then ''.''
      else let rooted = (hd p = CHR ''/'');
               out = foldl (clean_step rooted) [] (strings_Split p CHR ''/'')
           in if rooted then CHR ''/'' # join_slash out
              else if out = [] then ''.'' else join_slash out)"

definition path_Join :: "string list \<Rightarrow> string" where
  "path_Join elems =
     (let es = filter (\<lambda>e. e \<noteq> []) elems
      in if es = [] then [] else path_Clean (join_slash es))"

text \<open>
  A plain path: its elements are not empty and are neither \<open>.\<close> nor \<open>..\<close> (so it is
  relative, and cleaning leaves it as it is).
\<close>

definition plain_path :: "string \<Rightarrow> bool" where
  "plain_path p = (\<forall>c \<in> set (strings_Split p CHR ''/''). c \<noteq> [] \<and> c \<noteq> ''.'' \<and> c \<noteq> ''..'')"

text \<open>
  \<open>crypto/sha1\<close>: the digest of a byte string (FIPS 180-4), and
  \<open>base32.StdEncoding.EncodeToString\<close> (RFC 4648, alphabet A-Z 2-7, padded with \<open>=\<close>).
\<close>

definition be_bytes32 :: "32 word \<Rightarrow> byte list" where
  "be_bytes32 w = map (\<lambda>i. ucast (drop_bit (8 * (3 - i)) w)) [0..<4]"

definition be_bytes64 :: "64 word \<Rightarrow> byte list" where
  "be_bytes64 w = map (\<lambda>i. ucast (drop_bit (8 * (7 - i)) w)) [0..<8]"

definition sha1_pad :: "byte list \<Rightarrow> byte list" where
  "sha1_pad m =
     m @ [0x80] @ replicate ((119 - length m mod 64) mod 64) 0 @ be_bytes64 (8 * of_nat (length m))"

fun be_words :: "byte list \<Rightarrow> 32 word list" where
  "be_words (a # b # c # d # bs) =
     (push_bit 24 (ucast a) OR push_bit 16 (ucast b) OR push_bit 8 (ucast c) OR ucast d) # be_words bs"
| "be_words _ = []"

fun sha1_schedule :: "nat \<Rightarrow> 32 word list \<Rightarrow> 32 word list" where
  "sha1_schedule 0 w = w"
| "sha1_schedule (Suc k) w =
     (let n = length w
      in sha1_schedule k
           (w @ [word_rotl 1 (w ! (n - 3) XOR w ! (n - 8) XOR w ! (n - 14) XOR w ! (n - 16))]))"

type_synonym sha1_state = "32 word \<times> 32 word \<times> 32 word \<times> 32 word \<times> 32 word"

definition sha1_round :: "32 word list \<Rightarrow> nat \<Rightarrow> sha1_state \<Rightarrow> sha1_state" where
  "sha1_round w t s =
     (case s of (a, b, c, d, e) \<Rightarrow>
        let f = (if t < 20 then (b AND c) OR (NOT b AND d)
                 else if t < 40 then b XOR c XOR d
                 else if t < 60 then (b AND c) OR (b AND d) OR (c AND d)
                 else b XOR c XOR d);
            k = (if t < 20 then 0x5A827999
                 else if t < 40 then 0x6ED9EBA1
                 else if t < 60 then 0x8F1BBCDC
                 else 0xCA62C1D6)
        in (word_rotl 5 a + f + e + w ! t + k, a, word_rotl 30 b, c, d))"

definition sha1_block :: "sha1_state \<Rightarrow> byte list \<Rightarrow> sha1_state" where
  "sha1_block h blk =
     (let w = sha1_schedule 64 (be_words blk)
      in case (h, fold (sha1_round w) [0..<80] h) of
           ((h0, h1, h2, h3, h4), (a, b, c, d, e)) \<Rightarrow> (h0 + a, h1 + b, h2 + c, h3 + d, h4 + e))"

fun sha1_blocks :: "nat \<Rightarrow> sha1_state \<Rightarrow> byte list \<Rightarrow> sha1_state" where
  "sha1_blocks 0 h bs = h"
| "sha1_blocks (Suc n) h bs = sha1_blocks n (sha1_block h (take 64 bs)) (drop 64 bs)"

definition sha1_Sum :: "string \<Rightarrow> byte list" where
  "sha1_Sum s =
     (let p = sha1_pad (map of_char s)
      in case sha1_blocks (length p div 64)
                (0x67452301, 0xEFCDAB89, 0x98BADCFE, 0x10325476, 0xC3D2E1F0) p of
           (h0, h1, h2, h3, h4) \<Rightarrow> concat (map be_bytes32 [h0, h1, h2, h3, h4]))"

definition base32_alphabet :: string where
  "base32_alphabet = ''ABCDEFGHIJKLMNOPQRSTUVWXYZ234567''"

fun chunks5 :: "bool list \<Rightarrow> bool list list" where
  "chunks5 [] = []"
| "chunks5 bs = take 5 (bs @ replicate 4 False) # chunks5 (drop 5 bs)"

definition bits_be :: "byte \<Rightarrow> bool list" where
  "bits_be b = map (\<lambda>i. bit b (7 - i)) [0..<8]"

definition bits_val :: "bool list \<Rightarrow> nat" where
  "bits_val bs = foldl (\<lambda>n b. 2 * n + (if b then 1 else 0)) 0 bs"

definition base32_EncodeToString :: "byte list \<Rightarrow> string" where
  "base32_EncodeToString src =
     (let cs = map (\<lambda>g. base32_alphabet ! bits_val g) (chunks5 (concat (map bits_be src)))
      in cs @ replicate ((8 - length cs mod 8) mod 8) CHR ''='')"

subsection \<open>The data of a build request\<close>

text \<open>
  \<open>module\<close> is a package reference of the request: \<open>options.packages\<close> and
  \<open>options.external\<close> are slices of it (\<open>moduleSlice\<close>). \<open>build.go\<close> reads the three
  fields \<open>name\<close>, \<open>version\<close> and \<open>submodule\<close>.
\<close>

record module =
  name :: string
  version :: string
  submodule :: string

record buildOptions =
  packages :: "module list"
  external :: "module list"
  target :: string
  isDev :: bool

definition buildVersion :: nat where
  "buildVersion = 1"

text \<open>
  Modelled from the spec: the method \<open>ImportPath\<close> of \<open>module\<close>, declared outside
  \<open>build.go\<close>. The import path is \<open><name>[/<submodule>]\<close>.
\<close>

definition ImportPath :: "module \<Rightarrow> string" where
  "ImportPath m = (if submodule m = [] then name m else name m @ ''/'' @ submodule m)"

text \<open>
  Modelled from the spec: the order \<open>Less\<close> of \<open>moduleSlice\<close>, declared outside
  \<open>build.go\<close>. The sort order is total: lexicographic by \<open>name\<close>, then \<open>version\<close>, then
  \<open>submodule\<close>; strings compare bytewise, as Go's \<open><\<close> does.
\<close>

definition module_key :: "module \<Rightarrow> string \<times> string \<times> string" where
  "module_key m = (name m, version m, submodule m)"

text \<open>
  \<open>sort.Sort\<close> rearranges the slice in place into an order-respecting permutation. Under
  a total order that only ties equal elements there is exactly one such permutation
  (lemma \<open>sort_Sort_unique\<close> below), which insertion sort computes.
\<close>

definition sort_Sort :: "module list \<Rightarrow> module list" where
  "sort_Sort ms = sort_key module_key ms"

subsection \<open>The build identifier (build.go, lines 68 to 95)\<close>

text \<open>
  The method \<open>String\<close> of \<open>moduleSlice\<close> is declared outside \<open>build.go\<close> and the spec does
  not fix its format: it is the argument \<open>S\<close>. \<open>sort.Sort\<close> sorts the slices that the
  caller's \<open>options\<close> share, so the rest of \<open>build\<close> sees the sorted lists: \<open>fingerprint\<close>
  returns the options together with the identifier.
\<close>

definition single_buildID :: "(module list \<Rightarrow> string) \<Rightarrow> buildOptions \<Rightarrow> string" where
  "single_buildID S options =
     (let pkg = packages options ! 0;
          filename = path_Base (name pkg);
          tgt = (if length (external options) > 0
                 then ''external='' @ strings_ReplaceAll (S (external options)) ''/'' ''_'' @ ''/''
                        @ target options
                 else target options);
          filename = (if submodule pkg \<noteq> [] then submodule pkg else filename);
          filename = (if isDev options then filename @ ''.development'' else filename)
      in ''v'' @ fmt_d buildVersion @ ''/'' @ name pkg @ ''@'' @ version pkg @ ''/'' @ tgt @ ''/''
           @ filename)"

definition bundle_buildID :: "(module list \<Rightarrow> string) \<Rightarrow> buildOptions \<Rightarrow> string" where
  "bundle_buildID S options =
     ''bundle-'' @ strings_ToLower (base32_EncodeToString (sha1_Sum
        (''v'' @ fmt_d buildVersion @ ''/'' @ S (packages options) @ ''/'' @ S (external options)
           @ ''/'' @ target options @ ''/'' @ fmt_v (isDev options))))"

definition fingerprint :: "(module list \<Rightarrow> string) \<Rightarrow> buildOptions \<Rightarrow> buildOptions \<times> string" where
  "fingerprint S options =
     (if length (packages options) = 1 then (options, single_buildID S options)
      else let options' = options\<lparr>packages := sort_Sort (packages options),
                                     external := sort_Sort (external options)\<rparr>
           in (options', bundle_buildID S options'))"

definition compute_buildID :: "(module list \<Rightarrow> string) \<Rightarrow> buildOptions \<Rightarrow> string" where
  "compute_buildID S options = snd (fingerprint S options)"

subsection \<open>Package manifests, errors, the store and the environment of a build\<close>

text \<open>
  \<open>NpmPackage\<close> is declared outside \<open>build.go\<close>; the record has the fields that \<open>build.go\<close>
  reads. A Go map is an association list; reading a missing key gives the zero value.
  \<open>ImportMeta\<close> embeds the manifest and adds the export names and the path of the type
  declarations.
\<close>

record NpmPackage =
  Name :: string
  Version :: string
  Main :: string
  Module :: string
  Type :: string
  Types :: string
  Typings :: string
  DefinedExports :: "(string \<times> string) list"
  Dependencies :: "(string \<times> string) list"
  PeerDependencies :: "(string \<times> string) list"

record ImportMeta = NpmPackage +
  Exports :: "string list"
  Dts :: string

type_synonym metas = "(string \<times> ImportMeta) list"

record buildResult =
  buildID :: string
  importMeta :: metas
  hasCSS :: bool

definition map_index :: "(string \<times> string) list \<Rightarrow> string \<Rightarrow> string" where
  "map_index m k = (case map_of m k of None \<Rightarrow> [] | Some v \<Rightarrow> v)"

text \<open>
  Errors are values. \<open>ErrNotFound\<close> is \<open>postdb.ErrNotFound\<close>, \<open>ErrNotExist\<close> stands for the
  errors that \<open>os.IsNotExist\<close> accepts, \<open>Err\<close> is any other error; the string is the
  message that \<open>err.Error()\<close> returns.
\<close>

datatype error = ErrNotFound | ErrNotExist string | Err string

definition os_IsNotExist :: "error \<Rightarrow> bool" where
  "os_IsNotExist e = (case e of ErrNotExist _ \<Rightarrow> True | _ \<Rightarrow> False)"

text \<open>
  The state that outlives a call of \<open>build\<close>: the records of the key/value store by alias
  (the two values \<open>importMeta\<close> and \<open>css\<close> of a record), the files under
  \<open><storageDir>/builds\<close> by path with their contents, and the working directories that
  exist under the system's temporary directory.
\<close>

record KV =
  kv_importMeta :: string
  kv_css :: string

record world =
  db :: "string \<rightharpoonup> KV"
  files :: "string \<rightharpoonup> string"
  dirs :: "string set"

text \<open>What the bundler returns: \<open>api.BuildResult\<close>, and with it the entries that the
  resolve plugin has put into \<open>peerModulesForCommonjs\<close> during the run.\<close>

record BuildResult =
  OutputFiles :: "(string \<times> string) list"
  Errors :: "string list"
  Warnings :: "string list"
  peerModulesForCommonjs :: "(string \<times> string) list"

text \<open>
  Everything else \<open>build\<close> depends on is a field of the environment: the declarations of
  the package \<open>server\<close> outside \<open>build.go\<close> (\<open>moduleSlice.String\<close>, \<open>ensureExt\<close>, \<open>EOL\<close>,
  \<open>builtInNodeModules\<close>), the JSON codec, the registry (\<open>nodeEnv.getPackageInfo\<close>, which
  answers with a manifest or with the message of an error), the installer, the random name
  of the working directory, the files that the installer leaves in it and what the two
  export parsers and the type copier (which answers with the message of its error) make
  of them, the bundler as a function of the entry stub and of the externals it is given,
  and the failures of the store and of the file system: a fault is the message of the
  error that the operation returns instead of doing its work (\<open>db.Delete\<close> is called at
  most twice, the fault is chosen by the number of the call).
\<close>

record env =
  moduleSlice_String :: "module list \<Rightarrow> string"
  ensureExt :: "string \<Rightarrow> string \<Rightarrow> string"
  EOL :: string
  builtInNodeModules :: "string list"
  json_Unmarshal :: "string \<Rightarrow> metas \<times> error option"
  MustEncodeJSON :: "metas \<Rightarrow> string"
  db_Get_fault :: "string option"
  db_Delete_fault :: "nat \<Rightarrow> string option"
  db_Put_fault :: "string option"
  getPackageInfo :: "string \<Rightarrow> string \<Rightarrow> string + NpmPackage"
  buildDir :: string
  os_Chdir :: "string \<Rightarrow> error option"
  yarnAdd :: "string list \<Rightarrow> error option"
  installed :: "string \<Rightarrow> bool"
  ParseJSONFile :: "string \<Rightarrow> error + NpmPackage"
  parseESModuleExports :: "string \<Rightarrow> string \<Rightarrow> error + string list \<times> bool"
  parseCJSModuleExports :: "string \<Rightarrow> string \<Rightarrow> error + string list"
  copyDTS :: "module list \<Rightarrow> string \<Rightarrow> string \<Rightarrow> string \<Rightarrow> string \<Rightarrow> string option"
  api_Build :: "string \<Rightarrow> string list \<Rightarrow> BuildResult"
  os_Create_fault :: "string \<Rightarrow> string option"
  io_Copy_fault :: "string \<Rightarrow> string option"

text \<open>
  Modelled from the spec: \<open>fileExists\<close>, declared outside \<open>build.go\<close>: whether the sidecar
  file of an artifact is there. For the paths in the working directory, which the
  installer fills, the answer is the field \<open>installed\<close> of the environment.
\<close>

definition fileExists :: "world \<Rightarrow> string \<Rightarrow> bool" where
  "fileExists w p = (files w p \<noteq> None)"

definition db_Get :: "env \<Rightarrow> world \<Rightarrow> string \<Rightarrow> error + KV" where
  "db_Get e w alias =
     (case db_Get_fault e of
        Some msg \<Rightarrow> Inl (Err msg)
      | None \<Rightarrow> (case db w alias of None \<Rightarrow> Inl ErrNotFound | Some r \<Rightarrow> Inr r))"

definition db_Delete :: "env \<Rightarrow> nat \<Rightarrow> string \<Rightarrow> world \<Rightarrow> error option \<times> world" where
  "db_Delete e n alias w =
     (case db_Delete_fault e n of
        Some msg \<Rightarrow> (Some (Err msg), w)
      | None \<Rightarrow> (None, w\<lparr>db := (db w)(alias := None)\<rparr>))"

definition db_Put :: "env \<Rightarrow> string \<Rightarrow> KV \<Rightarrow> world \<Rightarrow> error option \<times> world" where
  "db_Put e alias r w =
     (case db_Put_fault e of
        Some msg \<Rightarrow> (Some (Err msg), w)
      | None \<Rightarrow> (None, w\<lparr>db := (db w)(alias \<mapsto> r)\<rparr>))"

subsection \<open>The lookup in the artifact cache (build.go, lines 97 to 123)\<close>

text \<open>
  The three ways the lookup ends: \<open>Hit\<close> is the return ``has built'' of line 113 with a nil
  error, \<open>Failed\<close> is a return with the error of the store, \<open>Miss\<close> goes on to line 125
  and builds.
\<close>

datatype lookup = Hit | Miss | Failed error

definition lookup_cache :: "env \<Rightarrow> string \<Rightarrow> buildResult \<Rightarrow> world \<Rightarrow> (lookup \<times> buildResult) \<times> world" where
  "lookup_cache e storageDir ret w =
     (case db_Get e w (buildID ret) of
        Inl err \<Rightarrow> ((if err \<noteq> ErrNotFound then Failed err else Miss, ret), w)
      | Inr p \<Rightarrow>
          (case json_Unmarshal e (kv_importMeta p) of
             (m, uerr) \<Rightarrow>
               let ret = ret\<lparr>importMeta := m\<rparr>
               in (case (if uerr \<noteq> None then db_Delete e 0 (buildID ret) w else (None, w)) of
                     (Some err, w) \<Rightarrow> ((Failed err, ret), w)
                   | (None, w) \<Rightarrow>
                       let ret = (if kv_css p = [CHR 0x01]
                                  then ret\<lparr>hasCSS := fileExists w
                                         (path_Join [storageDir, ''builds'', buildID ret @ ''.css''])\<rparr>
                                  else ret)
                       in if fileExists w (path_Join [storageDir, ''builds'', buildID ret @ ''.js''])
                          then ((Hit, ret), w)
                          else (case db_Delete e (if uerr \<noteq> None then 1 else 0) (buildID ret) w of
                                  (Some err, w) \<Rightarrow> ((Failed err, ret), w)
                                | (None, w) \<Rightarrow> ((Miss, ret), w)))))"

subsection \<open>Reading the manifests of the requested packages (build.go, lines 129 to 176)\<close>

text \<open>\<open>&ImportMeta{NpmPackage: &p}\<close>: the manifest with no exports and no type path.\<close>

definition init_meta :: "NpmPackage \<Rightarrow> ImportMeta" where
  "init_meta p = NpmPackage.extend p (ImportMeta.fields [] [])"

text \<open>
  Lines 146 to 151: the peer dependencies of the package go into the map
  \<open>peerDependencies\<close>; the peer \<open>react\<close> of \<open>react-dom\<close> takes the version of \<open>react-dom\<close>.
\<close>

definition collect_peers :: "NpmPackage \<Rightarrow> (string \<times> string) list \<Rightarrow> (string \<times> string) list" where
  "collect_peers p peerDependencies =
     foldl (\<lambda>pd (n, v). AList.update n (if n = ''react'' \<and> Name p = ''react-dom'' then Version p else v) pd)
       peerDependencies (PeerDependencies p)"

text \<open>
  Lines 152 to 162: a package without declared types and without a scope asks the
  registry for \<open>@types/<name>\<close>; that this package is not found is the one error that does
  not end the build.
\<close>

definition types_install :: "env \<Rightarrow> module \<Rightarrow> ImportMeta \<Rightarrow> string list \<Rightarrow> error + string list" where
  "types_install e pkg meta installList =
     (if Types meta = [] \<and> Typings meta = [] \<and> \<not> strings_HasPrefix (name pkg) ''@'' then
        (case getPackageInfo e (''@types/'' @ name pkg) ''latest'' of
           Inr info \<Rightarrow>
             Inr (if Types info \<noteq> [] \<or> Typings info \<noteq> [] \<or> Main info \<noteq> []
                  then installList @ [Name info @ ''@'' @ Version info] else installList)
         | Inl msg \<Rightarrow>
             if msg \<noteq> ''npm: package '' @ [CHR 0x27] @ ''@types/'' @ name pkg @ [CHR 0x27] @ '' not found''
             then Inl (Err msg) else Inr installList)
      else Inr installList)"

text \<open>Lines 163 to 174: the rules for \<open>module\<close> and for a request with a submodule.\<close>

definition apply_meta_rules :: "string \<Rightarrow> ImportMeta \<Rightarrow> ImportMeta" where
  "apply_meta_rules sub meta =
     (let meta = (if Module meta = [] \<and> Type meta = ''module'' then meta\<lparr>Module := Main meta\<rparr> else meta);
          meta = (if Module meta = [] \<and> map_index (DefinedExports meta) ''import'' \<noteq> []
                  then meta\<lparr>Module := map_index (DefinedExports meta) ''import''\<rparr> else meta);
          meta = (if sub \<noteq> [] then meta\<lparr>Main := sub, Module := [], Types := [], Typings := []\<rparr>
                  else meta)
      in meta)"

fun resolve_packages ::
  "env \<Rightarrow> module list \<Rightarrow> string list \<times> metas \<times> (string \<times> string) list
     \<Rightarrow> error + string list \<times> metas \<times> (string \<times> string) list" where
  "resolve_packages e [] st = Inr st"
| "resolve_packages e (pkg # pkgs) (installList, imeta, peerDependencies) =
     (case getPackageInfo e (name pkg) (version pkg) of
        Inl msg \<Rightarrow> Inl (Err msg)
      | Inr p \<Rightarrow>
          let meta = init_meta p;
              peerDependencies = collect_peers p peerDependencies
          in (case types_install e pkg meta installList of
                Inl err \<Rightarrow> Inl err
              | Inr installList \<Rightarrow>
                  resolve_packages e pkgs
                    (installList,
                     AList.update (ImportPath pkg) (apply_meta_rules (submodule pkg) meta) imeta,
                     peerDependencies)))"

subsection \<open>The classification of the peer dependencies (build.go, lines 178 to 209)\<close>

text \<open>
  Lines 180 to 196: a collected name stays a peer unless it is the name of a requested
  package, or a key of the \<open>dependencies\<close> of a meta in the map \<open>importMeta\<close>.
\<close>

definition is_peer :: "module list \<Rightarrow> metas \<Rightarrow> string \<Rightarrow> bool" where
  "is_peer pkgs imeta n =
     (let peer = \<not> list_ex (\<lambda>pkg. name pkg = n) pkgs
      in if peer
         then \<not> list_ex (\<lambda>(k, meta). list_ex (\<lambda>(dep, v). dep = n) (Dependencies meta)) imeta
         else peer)"


definition zero_package :: NpmPackage where
  "zero_package =
     \<lparr>Name = [], Version = [], Main = [], Module = [], Type = [], Types = [], Typings = [],
      DefinedExports = [], Dependencies = [], PeerDependencies = []\<rparr>"

text \<open>
  Lines 197 to 208: a peer is entered into \<open>peerPackages\<close> and appended to the install
  list, at the version of the request's external of the same name when there is one.
\<close>

definition peer_step ::
  "buildOptions \<Rightarrow> metas \<Rightarrow> (string \<times> NpmPackage) list \<times> string list \<Rightarrow> string \<times> string
     \<Rightarrow> (string \<times> NpmPackage) list \<times> string list" where
  "peer_step options imeta st nv =
     (case (st, nv) of
        ((peerPackages, installList), (n, v)) \<Rightarrow>
          if is_peer (packages options) imeta n
          then (AList.update n (zero_package\<lparr>Name := n\<rparr>) peerPackages,
                installList @ [n @ ''@'' @ (case find (\<lambda>m. name m = n) (external options) of
                                              Some m \<Rightarrow> version m
                                            | None \<Rightarrow> v)])
          else (peerPackages, installList))"

definition classify_peers ::
  "buildOptions \<Rightarrow> metas \<Rightarrow> (string \<times> string) list \<Rightarrow> string list
     \<Rightarrow> (string \<times> NpmPackage) list \<times> string list" where
  "classify_peers options imeta peerDependencies installList =
     foldl (peer_step options imeta) ([], installList) peerDependencies"

subsection \<open>Entries and exports of the installed packages (build.go, lines 233 to 292)\<close>

text \<open>
  \<open>importMeta[importPath]\<close> is a pointer; the first loop stores one under the import path
  of every requested package, so the read finds it. A missing key would be a nil pointer,
  whose dereference the model reports as an error.
\<close>

definition meta_at :: "metas \<Rightarrow> string \<Rightarrow> error + ImportMeta" where
  "meta_at imeta k =
     (case map_of imeta k of
        None \<Rightarrow> Inl (Err ''invalid memory address or nil pointer dereference'')
      | Some meta \<Rightarrow> Inr meta)"

text \<open>
  Lines 245 to 258: the manifest \<open>p\<close> of \<open><pkg>/<submodule>/package.json\<close> replaces the
  entries of the meta by its own, joined to the submodule with \<open>path.Join\<close>.
\<close>

definition rederive_submodule :: "string \<Rightarrow> NpmPackage \<Rightarrow> ImportMeta \<Rightarrow> ImportMeta" where
  "rederive_submodule sub p meta =
     (let meta = (if Main p \<noteq> [] then meta\<lparr>Main := path_Join [sub, Main p]\<rparr> else meta);
          meta = (if Module p \<noteq> [] then meta\<lparr>Module := path_Join [sub, Module p]\<rparr>
                  else if Type meta = ''module'' \<and> Main p \<noteq> []
                  then meta\<lparr>Module := path_Join [sub, Main p]\<rparr>
                  else meta);
          meta = (if Types p \<noteq> [] then meta\<lparr>Types := path_Join [sub, Types p]\<rparr> else meta);
          meta = (if Typings p \<noteq> [] then meta\<lparr>Typings := path_Join [sub, Typings p]\<rparr> else meta)
      in meta)"

text \<open>
  The three steps of the loop body return the meta and whether the iteration is over
  (the \<open>continue\<close> of lines 268 and 281).
\<close>

definition probe_submodule :: "env \<Rightarrow> module \<Rightarrow> ImportMeta \<Rightarrow> error + bool \<times> ImportMeta" where
  "probe_submodule e pkg meta =
     (let nodeModulesDir = path_Join [buildDir e, ''node_modules''];
          pkgDir = path_Join [nodeModulesDir, Name meta]
      in if submodule pkg \<noteq> [] then
           (if installed e (path_Join [pkgDir, submodule pkg, ''package.json'']) then
              (case ParseJSONFile e (path_Join [pkgDir, submodule pkg, ''package.json'']) of
                 Inl err \<Rightarrow> Inl err
               | Inr p \<Rightarrow> Inr (False, rederive_submodule (submodule pkg) p meta))
            else
              (case parseESModuleExports e (buildDir e) (path_Join [Name meta, submodule pkg]) of
                 Inl err \<Rightarrow> Inl err
               | Inr (exports, esm) \<Rightarrow>
                   if esm then Inr (True, meta\<lparr>Module := submodule pkg, Exports := exports\<rparr>)
                   else Inr (False, meta)))
         else Inr (False, meta))"

definition probe_module :: "env \<Rightarrow> ImportMeta \<Rightarrow> error + bool \<times> ImportMeta" where
  "probe_module e meta =
     (if Module meta \<noteq> [] then
        (case parseESModuleExports e (buildDir e) (path_Join [Name meta, Module meta]) of
           Inl err \<Rightarrow> Inl err
         | Inr (exports, esm) \<Rightarrow>
             if esm then Inr (True, meta\<lparr>Exports := exports\<rparr>)
             else Inr (False, meta\<lparr>Module := []\<rparr>))
      else Inr (False, meta))"

definition probe_package :: "env \<Rightarrow> module \<Rightarrow> ImportMeta \<Rightarrow> error + ImportMeta" where
  "probe_package e pkg meta =
     (case probe_submodule e pkg meta of
        Inl err \<Rightarrow> Inl err
      | Inr (True, meta) \<Rightarrow> Inr meta
      | Inr (False, meta) \<Rightarrow>
          (case probe_module e meta of
             Inl err \<Rightarrow> Inl err
           | Inr (True, meta) \<Rightarrow> Inr meta
           | Inr (False, meta) \<Rightarrow>
               (case parseCJSModuleExports e (buildDir e) (ImportPath pkg) of
                  Inl err \<Rightarrow> Inl err
                | Inr exports \<Rightarrow> Inr (meta\<lparr>Exports := exports\<rparr>))))"

fun probe_packages :: "env \<Rightarrow> module list \<Rightarrow> metas \<Rightarrow> error + metas" where
  "probe_packages e [] imeta = Inr imeta"
| "probe_packages e (pkg # pkgs) imeta =
     (case meta_at imeta (ImportPath pkg) of
        Inl err \<Rightarrow> Inl err
      | Inr meta \<Rightarrow>
          (case probe_package e pkg meta of
             Inl err \<Rightarrow> Inl err
           | Inr meta \<Rightarrow> probe_packages e pkgs (AList.update (ImportPath pkg) meta imeta)))"

subsection \<open>Type declarations (build.go, lines 294 to 337 and 738 to 768)\<close>

definition strings_TrimSuffix :: "string \<Rightarrow> string \<Rightarrow> string" where
  "strings_TrimSuffix s suffix =
     (if strings_HasSuffix s suffix then take (length s - length suffix) s else s)"

definition getTypesPath :: "env \<Rightarrow> string \<Rightarrow> NpmPackage \<Rightarrow> string \<Rightarrow> string" where
  "getTypesPath e nodeModulesDir p subpath =
     (let types =
        (if subpath \<noteq> [] then
           let subpkgJSONFile = path_Join [nodeModulesDir, Name p, subpath, ''package.json''];
               subtypes =
                 (if installed e subpkgJSONFile then
                    (case ParseJSONFile e subpkgJSONFile of
                       Inr subpkg \<Rightarrow>
                         if Types subpkg \<noteq> [] then Types subpkg
                         else if Typings subpkg \<noteq> [] then Typings subpkg
                         else []
                     | Inl err \<Rightarrow> [])
                  else [])
           in if subtypes \<noteq> [] then path_Join [''/'', subpath, subtypes] else subpath
         else if Types p \<noteq> [] then Types p
         else if Typings p \<noteq> [] then Typings p
         else if Main p \<noteq> [] then strings_TrimSuffix (Main p) ''.js''
         else ''index.d.ts'')
      in Name p @ ''@'' @ Version p @ ensureExt e (path_Join [''/'', types]) ''.d.ts'')"

text \<open>Lines 297 to 324: where the type declarations of a package are, if anywhere.\<close>

definition find_types :: "env \<Rightarrow> module \<Rightarrow> ImportMeta \<Rightarrow> error + string" where
  "find_types e pkg meta =
     (let nodeModulesDir = path_Join [buildDir e, ''node_modules''];
          nv = Name meta @ ''@'' @ Version meta
      in if Types meta \<noteq> [] \<or> Typings meta \<noteq> [] then
           Inr (getTypesPath e nodeModulesDir (NpmPackage.truncate meta) [])
         else if submodule pkg = [] then
           (if installed e (path_Join [nodeModulesDir, name pkg, ''index.d.ts'']) then
              Inr (nv @ ''/'' @ ''index.d.ts'')
            else if \<not> strings_HasPrefix (name pkg) ''@'' then
              (case ParseJSONFile e (path_Join [nodeModulesDir, ''@types'', name pkg, ''package.json'']) of
                 Inr info \<Rightarrow> Inr (getTypesPath e nodeModulesDir info [])
               | Inl err \<Rightarrow> if \<not> os_IsNotExist err then Inl err else Inr [])
            else Inr [])
         else
           (if installed e (path_Join [nodeModulesDir, name pkg, submodule pkg, ''index.d.ts'']) then
              Inr (nv @ ''/'' @ path_Join [submodule pkg, ''index.d.ts''])
            else if installed e (path_Join [nodeModulesDir, name pkg, ensureExt e (submodule pkg) ''.d.ts'']) then
              Inr (nv @ ''/'' @ ensureExt e (submodule pkg) ''.d.ts'')
            else if installed e
                      (path_Join [nodeModulesDir, ''@types'', name pkg, submodule pkg, ''index.d.ts'']) then
              Inr (''@types/'' @ nv @ ''/'' @ path_Join [submodule pkg, ''index.d.ts''])
            else if installed e
                      (path_Join [nodeModulesDir, ''@types'', name pkg, ensureExt e (submodule pkg) ''.d.ts'']) then
              Inr (''@types/'' @ nv @ ''/'' @ ensureExt e (submodule pkg) ''.d.ts'')
            else Inr []))"

text \<open>
  Lines 325 to 333: the declarations found are copied below \<open><storageDir>/types\<close> (a tree
  that is not part of the modelled state) and the meta gets their public path.
\<close>

fun copy_types :: "env \<Rightarrow> string \<Rightarrow> string \<Rightarrow> buildOptions \<Rightarrow> module list \<Rightarrow> metas \<Rightarrow> error + metas" where
  "copy_types e storageDir hostname options [] imeta = Inr imeta"
| "copy_types e storageDir hostname options (pkg # pkgs) imeta =
     (case meta_at imeta (ImportPath pkg) of
        Inl err \<Rightarrow> Inl err
      | Inr meta \<Rightarrow>
          (case find_types e pkg meta of
             Inl err \<Rightarrow> Inl err
           | Inr types \<Rightarrow>
               if types \<noteq> [] then
                 (case copyDTS e (external options) hostname (path_Join [buildDir e, ''node_modules''])
                         (path_Join [storageDir, ''types'', ''v'' @ fmt_d buildVersion]) types of
                    Some msg \<Rightarrow> Inl (Err (''copyDTS('' @ types @ ''): '' @ msg))
                  | None \<Rightarrow>
                      copy_types e storageDir hostname options pkgs
                        (AList.update (ImportPath pkg) (meta\<lparr>Dts := ''/'' @ types\<rparr>) imeta))
               else copy_types e storageDir hostname options pkgs imeta))"

subsection \<open>The externals of the bundle (build.go, lines 339 to 375)\<close>

text \<open>
  The names of the peers (whose installed manifests are read), then the built-in modules
  and the externals of the request that are not themselves requested packages.
\<close>

fun read_peers ::
  "env \<Rightarrow> (string \<times> NpmPackage) list \<Rightarrow> (string \<times> NpmPackage) list
     \<Rightarrow> error + (string \<times> NpmPackage) list \<times> string list" where
  "read_peers e [] peerPackages = Inr (peerPackages, [])"
| "read_peers e ((n, q) # rest) peerPackages =
     (case ParseJSONFile e (path_Join [path_Join [buildDir e, ''node_modules''], n, ''package.json'']) of
        Inl err \<Rightarrow> Inl err
      | Inr p \<Rightarrow>
          (case read_peers e rest (AList.update n p peerPackages) of
             Inl err \<Rightarrow> Inl err
           | Inr (peerPackages, names) \<Rightarrow> Inr (peerPackages, n # names)))"

definition is_self :: "buildOptions \<Rightarrow> string \<Rightarrow> bool" where
  "is_self options n = list_ex (\<lambda>pkg. name pkg = n) (packages options)"

definition compute_externals ::
  "env \<Rightarrow> buildOptions \<Rightarrow> (string \<times> NpmPackage) list
     \<Rightarrow> error + (string \<times> NpmPackage) list \<times> string list" where
  "compute_externals e options peerPackages =
     (case read_peers e peerPackages peerPackages of
        Inl err \<Rightarrow> Inl err
      | Inr (peerPackages, names) \<Rightarrow>
          Inr (peerPackages,
               names
               @ filter (\<lambda>n. \<not> is_self options n) (builtInNodeModules e)
               @ map name (filter (\<lambda>m. \<not> is_self options (name m)) (external options))))"

subsection \<open>The entry stub (build.go, lines 377 to 435)\<close>

definition dq :: string where
  "dq = [CHR 0x22]"

text \<open>Lines 725 to 736.\<close>

definition identify :: "string \<Rightarrow> string" where
  "identify importPath =
     map (\<lambda>c. if c = CHR ''/'' \<or> c = CHR ''-'' \<or> c = CHR ''@'' \<or> c = CHR ''.'' then CHR ''_'' else c)
       importPath"

fun strings_Join :: "string list \<Rightarrow> string \<Rightarrow> string" where
  "strings_Join [] sep = []"
| "strings_Join [a] sep = a"
| "strings_Join (a # as) sep = a @ sep @ strings_Join as sep"

text \<open>
  Every \<open>fmt.Fprintf\<close> into the buffer is one statement of the stub. A statement that
  names a module after \<open>from\<close> keeps the three parts of its format apart: the text in
  front of the quoted module, the module, and the text behind it. The text given to the
  bundler is the concatenation of the rendered statements.
\<close>

datatype stub_stmt = From string string string | Plain string

fun render_stmt :: "stub_stmt \<Rightarrow> string" where
  "render_stmt (From a m b) = a @ dq @ m @ dq @ b"
| "render_stmt (Plain s) = s"


definition render_stub :: "stub_stmt list \<Rightarrow> string" where
  "render_stub stmts = concat (map render_stmt stmts)"


text \<open>Lines 379 to 406: the stub of a request with one package.\<close>

definition single_stub :: "env \<Rightarrow> module \<Rightarrow> ImportMeta \<Rightarrow> stub_stmt list" where
  "single_stub e pkg meta =
     (let importPath = ImportPath pkg;
          importIdentifier = ''__'' @ identify importPath;
          exports = filter (\<lambda>n. n \<noteq> ''default'' \<and> n \<noteq> ''import'') (Exports meta);
          hasDefaultExport = (''default'' \<in> set (Exports meta))
      in if Module meta \<noteq> [] then
           (if length exports > 0 then [From ''export * from '' importPath ('';'' @ EOL e)] else [])
           @ (if hasDefaultExport then [From ''export { default } from '' importPath '';''] else [])
         else
           [From (''import '' @ importIdentifier @ ''_default from '') importPath ('';'' @ EOL e)]
           @ (if length exports > 0 then
                [From (''import * as '' @ importIdentifier @ ''_star from '') importPath ('';'' @ EOL e),
                 Plain (''export const { '' @ strings_Join exports '','' @ '' } = '' @ importIdentifier
                          @ ''_star;'' @ EOL e)]
              else [])
           @ [Plain (''export default '' @ importIdentifier @ ''_default;'')])"

text \<open>Lines 408 to 434: the statements of one package of a bundle.\<close>

definition bundle_stub :: "env \<Rightarrow> module \<Rightarrow> ImportMeta \<Rightarrow> stub_stmt list" where
  "bundle_stub e pkg meta =
     (let importPath = ImportPath pkg;
          importIdentifier = identify importPath;
          hasDefaultExport = (''default'' \<in> set (Exports meta))
      in if Module meta \<noteq> [] then
           [From (''export * as '' @ importIdentifier @ ''_star from '') importPath ('';'' @ EOL e)]
           @ (if hasDefaultExport
              then [From (''export {default as '' @ importIdentifier @ ''_default} from '') importPath '';'']
              else [])
         else if Main meta \<noteq> [] then
           [if hasDefaultExport
            then From (''import '' @ importIdentifier @ '' from '') importPath ('';'' @ EOL e)
            else From (''import * as '' @ importIdentifier @ '' from '') importPath ('';'' @ EOL e),
            Plain (''export {'' @ importIdentifier @ '' as '' @ importIdentifier @ ''_default};'')]
         else [Plain (''export const '' @ importIdentifier @ ''_default = null;'')])"

fun bundle_stubs :: "env \<Rightarrow> module list \<Rightarrow> metas \<Rightarrow> error + stub_stmt list" where
  "bundle_stubs e [] imeta = Inr []"
| "bundle_stubs e (pkg # pkgs) imeta =
     (case meta_at imeta (ImportPath pkg) of
        Inl err \<Rightarrow> Inl err
      | Inr meta \<Rightarrow>
          (case bundle_stubs e pkgs imeta of
             Inl err \<Rightarrow> Inl err
           | Inr stmts \<Rightarrow> Inr (bundle_stub e pkg meta @ stmts)))"

definition entry_stub :: "env \<Rightarrow> buildOptions \<Rightarrow> metas \<Rightarrow> error + stub_stmt list" where
  "entry_stub e options imeta =
     (if length (packages options) = 1 then
        (case meta_at imeta (ImportPath (packages options ! 0)) of
           Inl err \<Rightarrow> Inl err
         | Inr meta \<Rightarrow> Inr (single_stub e (packages options ! 0) meta))
      else bundle_stubs e (packages options) imeta)"

subsection \<open>The bundler and its retries (build.go, lines 459 to 609)\<close>

text \<open>
  Lines 589 to 604: the errors of a run are read in order. A message \<open>Could not resolve\<close>
  names a module between its first two double quotes; a name that is not empty and not
  yet in \<open>indirectRequires\<close> is added to it and to \<open>extraExternals\<close>. Any other message
  ends the build.
\<close>

fun scan_errors :: "string list \<Rightarrow> string list \<Rightarrow> string list \<Rightarrow> error + string list \<times> string list" where
  "scan_errors [] indirectRequires extraExternals = Inr (indirectRequires, extraExternals)"
| "scan_errors (t # ts) indirectRequires extraExternals =
     (if strings_HasPrefix t (''Could not resolve '' @ dq) then
        let missingModule = strings_Split t CHR 0x22 ! 1
        in if missingModule \<noteq> [] \<and> missingModule \<notin> set indirectRequires
           then scan_errors ts (indirectRequires @ [missingModule]) (extraExternals @ [missingModule])
           else scan_errors ts indirectRequires extraExternals
      else Inl (Err (''esbuild: '' @ t)))"

text \<open>
  The label \<open>esbuild\<close> and the \<open>goto\<close> of line 607. The entry stub, the table of
  definitions and the resolve plugin are the same in every run; only the externals grow,
  so within the loop the bundler is a function of the externals. The loop need not end:
  the result is \<open>None\<close> when it does not.
\<close>

partial_function (option) esbuild_loop ::
  "(string list \<Rightarrow> BuildResult) \<Rightarrow> string list \<Rightarrow> string list
     \<Rightarrow> (error + BuildResult \<times> string list) option" where
  "esbuild_loop bundler externals indirectRequires =
     (let result = bundler externals
      in if length (Errors result) > 0 then
           (case scan_errors (Errors result) indirectRequires [] of
              Inl err \<Rightarrow> Some (Inl err)
            | Inr (indirectRequires, extraExternals) \<Rightarrow>
                if length extraExternals > 0
                then esbuild_loop bundler (externals @ extraExternals) indirectRequires
                else Some (Inr (result, externals)))
         else Some (Inr (result, externals)))"

declare esbuild_loop.simps [code]

subsection \<open>Post-processing of the bundle (build.go, lines 611 to 696)\<close>

definition jsCopyrightName :: string where
  "jsCopyrightName = ''esm.sh''"

text \<open>
  Lines 619 to 638: the banner, and in development mode the list of the dependencies of
  the requested packages.
\<close>

definition bundled_deps :: "module list \<Rightarrow> metas \<Rightarrow> (string \<times> string) list" where
  "bundled_deps pkgs imeta =
     foldl (\<lambda>deps pkg.
              (case map_of imeta (ImportPath pkg) of
                 None \<Rightarrow> deps
               | Some meta \<Rightarrow> foldl (\<lambda>deps (n, v). AList.update n v deps) deps (Dependencies meta)))
       [] pkgs"

definition banner :: "env \<Rightarrow> buildOptions \<Rightarrow> metas \<Rightarrow> string \<Rightarrow> string" where
  "banner e options imeta envname =
     ''/* '' @ jsCopyrightName @ '' - esbuild bundle('' @ moduleSlice_String e (packages options) @ '') ''
       @ strings_ToLower (target options) @ '' '' @ envname @ '' */'' @ EOL e
     @ (if isDev options then
          (let deps = bundled_deps (packages options) imeta
           in if length deps > 0 then
                ''/*'' @ EOL e @ '' * bundled dependencies:'' @ EOL e
                @ concat (map (\<lambda>(n, v). '' *   - '' @ n @ '': '' @ v @ EOL e) deps)
                @ '' */'' @ EOL e
              else [])
        else [])"

text \<open>
  Lines 645 to 676: what is written in front of a \<open>.js\<close> output, one statement per
  element. The tests for \<open>__process$\<close> and \<open>__Buffer$\<close> read the output of the bundler; the
  rewriting of \<open>require("<name>")\<close> for the peers of CommonJS modules comes next, and the
  tests for \<open>__global$\<close>, \<open>__setImmediate$$\<close> and \<open>__rResolve$\<close> read the rewritten output.
\<close>

definition peer_import :: "string \<Rightarrow> string list \<times> string \<Rightarrow> string \<times> string \<Rightarrow> string list \<times> string" where
  "peer_import eol st entry =
     (case (st, entry) of
        ((stmts, outputContent), (n, importPath)) \<Rightarrow>
          if importPath \<noteq> [] then
            (stmts @ [''import __'' @ identify n @ ''$ from '' @ dq @ importPath @ dq @ '';'' @ eol],
             strings_ReplaceAll outputContent (''require('' @ dq @ n @ dq @ '')'')
               (''__'' @ identify n @ ''$''))
          else (stmts, outputContent))"

definition rewrite_requires :: "string \<Rightarrow> (string \<times> string) list \<Rightarrow> string \<Rightarrow> string list \<times> string" where
  "rewrite_requires eol peers outputContent = foldl (peer_import eol) ([], outputContent) peers"

definition setImmediate_shim :: "string \<Rightarrow> string" where
  "setImmediate_shim eol = ''__setImmediate$ = (cb, args) => setTimeout(cb, 0, ...args);'' @ eol"

definition js_prelude :: "string \<Rightarrow> string \<Rightarrow> (string \<times> string) list \<Rightarrow> string \<Rightarrow> string list" where
  "js_prelude eol envname peers outputContent =
     (if bytes_Contains outputContent ''__process$''
      then [''import __process$ from '' @ dq @ ''/v'' @ fmt_d buildVersion @ ''/_node_process.js'' @ dq
              @ '';'' @ eol @ ''__process$.env.NODE_ENV='' @ dq @ envname @ dq @ '';'' @ eol]
      else [])
     @ (if bytes_Contains outputContent ''__Buffer$''
        then [''import { Buffer as __Buffer$ } from '' @ dq @ ''/v'' @ fmt_d buildVersion
                @ ''/_node_buffer.js'' @ dq @ '';'' @ eol]
        else [])
     @ fst (rewrite_requires eol peers outputContent)
     @ (let outputContent = snd (rewrite_requires eol peers outputContent)
        in (if bytes_Contains outputContent ''__global$''
            then [''if (typeof __global$ === '' @ dq @ ''undefined'' @ dq @ '') var __global$ = window;'' @ eol]
            else [])
           @ (if bytes_Contains outputContent ''__setImmediate$$'' then [setImmediate_shim eol] else [])
           @ (if bytes_Contains outputContent ''__rResolve$'' then [''var __rResolve$ = v => v;'' @ eol]
              else []))"

definition postprocess_js :: "string \<Rightarrow> string \<Rightarrow> (string \<times> string) list \<Rightarrow> string \<Rightarrow> string" where
  "postprocess_js eol envname peers outputContent =
     concat (js_prelude eol envname peers outputContent)
     @ snd (rewrite_requires eol peers outputContent)"

text \<open>
  Lines 641 to 696: the output files in order. A \<open>.js\<close> file is appended to the buffer
  behind its prelude; a \<open>.css\<close> file is written to \<open><storageDir>/builds/<buildID>.css\<close>
  and sets the css byte. \<open>os.Create\<close> leaves an empty file that \<open>io.Copy\<close> fills.
\<close>

fun process_outputs ::
  "env \<Rightarrow> string \<Rightarrow> string \<Rightarrow> string \<Rightarrow> string \<Rightarrow> (string \<times> string) list \<Rightarrow> (string \<times> string) list
     \<Rightarrow> string \<Rightarrow> string \<Rightarrow> world \<Rightarrow> (error + string \<times> string) \<times> world" where
  "process_outputs e storageDir bid eol envname peers [] jsContentBuf css w = (Inr (jsContentBuf, css), w)"
| "process_outputs e storageDir bid eol envname peers ((p, outputContent) # outs) jsContentBuf css w =
     (if strings_HasSuffix p ''.js'' then
        process_outputs e storageDir bid eol envname peers outs
          (jsContentBuf @ postprocess_js eol envname peers outputContent) css w
      else if strings_HasSuffix p ''.css'' then
        (let saveFilePath = path_Join [storageDir, ''builds'', bid @ ''.css'']
         in case os_Create_fault e saveFilePath of
              Some msg \<Rightarrow> (Inl (Err msg), w)
            | None \<Rightarrow>
                (let w = w\<lparr>files := (files w)(saveFilePath \<mapsto> [])\<rparr>
                 in case io_Copy_fault e saveFilePath of
                      Some msg \<Rightarrow> (Inl (Err msg), w)
                    | None \<Rightarrow>
                        process_outputs e storageDir bid eol envname peers outs jsContentBuf [CHR 0x01]
                          (w\<lparr>files := (files w)(saveFilePath \<mapsto> outputContent)\<rparr>)))
      else process_outputs e storageDir bid eol envname peers outs jsContentBuf css w)"

subsection \<open>Writing the artifact and its record (build.go, lines 698 to 722)\<close>

text \<open>The result of \<open>db.Put\<close> is dropped.\<close>

definition commit ::
  "env \<Rightarrow> string \<Rightarrow> buildResult \<Rightarrow> metas \<Rightarrow> string \<Rightarrow> string \<Rightarrow> world
     \<Rightarrow> (buildResult \<times> error option) \<times> world" where
  "commit e storageDir ret imeta css jsContentBuf w =
     (let saveFilePath = path_Join [storageDir, ''builds'', buildID ret @ ''.js'']
      in case os_Create_fault e saveFilePath of
           Some msg \<Rightarrow> ((ret, Some (Err msg)), w)
         | None \<Rightarrow>
             (let w = w\<lparr>files := (files w)(saveFilePath \<mapsto> [])\<rparr>
              in case io_Copy_fault e saveFilePath of
                   Some msg \<Rightarrow> ((ret, Some (Err msg)), w)
                 | None \<Rightarrow>
                     (let w = w\<lparr>files := (files w)(saveFilePath \<mapsto> jsContentBuf)\<rparr>;
                          w = snd (db_Put e (buildID ret)
                                     \<lparr>kv_importMeta = MustEncodeJSON e imeta, kv_css = css\<rparr> w)
                      in ((ret\<lparr>importMeta := imeta, hasCSS := (hd css = CHR 0x01)\<rparr>, None), w))))"

subsection \<open>The function build (build.go, lines 67 to 723)\<close>

text \<open>
  Lines 218 to 722 run between \<open>ensureDir(buildDir)\<close> and the deferred
  \<open>os.RemoveAll(buildDir)\<close>; \<open>finish_build\<close> is their last part, from line 611 on. Every
  \<open>return\<close> of the source is a branch that gives back the named results \<open>ret\<close> and \<open>err\<close>
  with the state reached.
\<close>

definition finish_build ::
  "env \<Rightarrow> string \<Rightarrow> buildOptions \<Rightarrow> buildResult \<Rightarrow> metas \<Rightarrow> BuildResult \<Rightarrow> world
     \<Rightarrow> (buildResult \<times> error option) \<times> world" where
  "finish_build e storageDir options ret imeta result w =
     (let envname = (if isDev options then ''development'' else ''production'')
      in case process_outputs e storageDir (buildID ret) (if isDev options then EOL e else []) envname
                (peerModulesForCommonjs result) (OutputFiles result)
                (banner e options imeta envname) [CHR 0x00] w of
           (Inl err, w) \<Rightarrow> ((ret, Some err), w)
         | (Inr (jsContentBuf, css), w) \<Rightarrow> commit e storageDir ret imeta css jsContentBuf w)"

definition build_in_dir ::
  "env \<Rightarrow> string \<Rightarrow> string \<Rightarrow> buildOptions \<Rightarrow> buildResult \<Rightarrow> string list \<Rightarrow> metas
     \<Rightarrow> (string \<times> NpmPackage) list \<Rightarrow> world \<Rightarrow> ((buildResult \<times> error option) \<times> world) option" where
  "build_in_dir e storageDir hostname options ret installList imeta peerPackages w =
     (case os_Chdir e (buildDir e) of
        Some err \<Rightarrow> Some ((ret, Some err), w)
      | None \<Rightarrow>
     (case yarnAdd e installList of
        Some err \<Rightarrow> Some ((ret, Some err), w)
      | None \<Rightarrow>
     (case probe_packages e (packages options) imeta of
        Inl err \<Rightarrow> Some ((ret, Some err), w)
      | Inr imeta \<Rightarrow>
     (case copy_types e storageDir hostname options (packages options) imeta of
        Inl err \<Rightarrow> Some ((ret, Some err), w)
      | Inr imeta \<Rightarrow>
     (case compute_externals e options peerPackages of
        Inl err \<Rightarrow> Some ((ret, Some err), w)
      | Inr (peerPackages, externals) \<Rightarrow>
     (case entry_stub e options imeta of
        Inl err \<Rightarrow> Some ((ret, Some err), w)
      | Inr stmts \<Rightarrow>
     (case esbuild_loop (api_Build e (render_stub stmts)) externals [] of
        None \<Rightarrow> None
      | Some (Inl err) \<Rightarrow> Some ((ret, Some err), w)
      | Some (Inr (result, externals)) \<Rightarrow>
          Some (finish_build e storageDir options ret imeta result w))))))))"

definition zero_result :: buildResult where
  "zero_result = \<lparr>buildID = [], importMeta = [], hasCSS = False\<rparr>"

definition build ::
  "env \<Rightarrow> string \<Rightarrow> string \<Rightarrow> buildOptions \<Rightarrow> world \<Rightarrow> ((buildResult \<times> error option) \<times> world) option" where
  "build e storageDir hostname options w =
     (if length (packages options) = 0 then Some ((zero_result, Some (Err ''no packages'')), w)
      else
        (case fingerprint (moduleSlice_String e) options of
           (options, bid) \<Rightarrow>
        (case lookup_cache e storageDir (zero_result\<lparr>buildID := bid\<rparr>) w of
           ((Failed err, ret), w) \<Rightarrow> Some ((ret, Some err), w)
         | ((Hit, ret), w) \<Rightarrow> Some ((ret, None), w)
         | ((Miss, ret), w) \<Rightarrow>
        (case resolve_packages e (packages options)
                (map (\<lambda>pkg. name pkg @ ''@'' @ version pkg) (packages options), [], []) of
           Inl err \<Rightarrow> Some ((ret, Some err), w)
         | Inr (installList, imeta, peerDependencies) \<Rightarrow>
        (case classify_peers options imeta peerDependencies installList of
           (peerPackages, installList) \<Rightarrow>
        (case build_in_dir e storageDir hostname options ret installList imeta peerPackages
                (w\<lparr>dirs := insert (buildDir e) (dirs w)\<rparr>) of
           None \<Rightarrow> None
         | Some (r, w) \<Rightarrow> Some (r, w\<lparr>dirs := dirs w - {buildDir e}\<rparr>)))))))"

text \<open>
  Two points on the way through \<open>build\<close>: the lookup has missed (line 125 is reached), and
  the manifests are read as well, so that the working directory is made (line 215).
\<close>

definition lookup_missed :: "env \<Rightarrow> string \<Rightarrow> buildOptions \<Rightarrow> world \<Rightarrow> bool" where
  "lookup_missed e storageDir options w =
     (length (packages options) \<noteq> 0
      \<and> fst (fst (lookup_cache e storageDir
                      (zero_result\<lparr>buildID := compute_buildID (moduleSlice_String e) options\<rparr>) w)) = Miss)"

definition workdir_made :: "env \<Rightarrow> string \<Rightarrow> buildOptions \<Rightarrow> world \<Rightarrow> bool" where
  "workdir_made e storageDir options w =
     (lookup_missed e storageDir options w
      \<and> (case fingerprint (moduleSlice_String e) options of
            (options, bid) \<Rightarrow>
              (case resolve_packages e (packages options)
                      (map (\<lambda>pkg. name pkg @ ''@'' @ version pkg) (packages options), [], []) of
                 Inl err \<Rightarrow> False
               | Inr st \<Rightarrow> True)))"

section \<open>Concrete requests and environments\<close>

text \<open>
  A rendering of a list of references, \<open>name@version[/submodule]\<close> joined by commas, used
  to evaluate the model at concrete requests.
\<close>

fun ref_strings :: "module list \<Rightarrow> string" where
  "ref_strings [] = []"
| "ref_strings [m] = name m @ ''@'' @ version m @ (if submodule m = [] then [] else ''/'' @ submodule m)"
| "ref_strings (m # ms) =
     name m @ ''@'' @ version m @ (if submodule m = [] then [] else ''/'' @ submodule m) @ '',''
     @ ref_strings ms"

definition refs_joined :: "module list \<Rightarrow> string" where
  "refs_joined ms = ref_strings ms"

text \<open>
  A registry that knows every package, an installer that succeeds, a bundler that returns
  one \<open>.js\<close> file, a store and a file system without faults, and a JSON codec that
  accepts only \<open>{}\<close>.
\<close>

definition example_package :: "string \<Rightarrow> string \<Rightarrow> NpmPackage" where
  "example_package n v = zero_package\<lparr>Name := n, Version := v, Main := ''index.js'', Types := ''index.d.ts''\<rparr>"

definition example_env :: env where
  "example_env =
     \<lparr>moduleSlice_String = refs_joined,
      ensureExt = (\<lambda>s ext. if strings_HasSuffix s ext then s else s @ ext),
      EOL = [CHR 0x0A],
      builtInNodeModules = [''fs'', ''path''],
      json_Unmarshal = (\<lambda>s. if s = ''{}'' then ([], None) else ([], Some (Err ''invalid character''))),
      MustEncodeJSON = (\<lambda>m. ''{}''),
      db_Get_fault = None,
      db_Delete_fault = (\<lambda>n. None),
      db_Put_fault = None,
      getPackageInfo = (\<lambda>n v. Inr (example_package n v)),
      buildDir = ''/tmp/esmd-build/0123456789abcdef'',
      os_Chdir = (\<lambda>d. None),
      yarnAdd = (\<lambda>l. None),
      installed = (\<lambda>p. False),
      ParseJSONFile = (\<lambda>p. Inl (ErrNotExist ''no such file or directory'')),
      parseESModuleExports = (\<lambda>d p. Inr ([], False)),
      parseCJSModuleExports = (\<lambda>d p. Inr [''default'']),
      copyDTS = (\<lambda>ext h nm dst t. None),
      api_Build = (\<lambda>stub exts. \<lparr>OutputFiles = [(''/esbuild/export.js'', ''export default 1;'')],
                            Errors = [], Warnings = [], peerModulesForCommonjs = []\<rparr>),
      os_Create_fault = (\<lambda>p. None),
      io_Copy_fault = (\<lambda>p. None)\<rparr>"

definition preact_request :: buildOptions where
  "preact_request =
     \<lparr>packages = [\<lparr>name = ''preact'', version = ''10.5.0'', submodule = []\<rparr>],
      external = [], target = ''es2020'', isDev = False\<rparr>"

definition empty_world :: world where
  "empty_world = \<lparr>db = Map.empty, files = Map.empty, dirs = {}\<rparr>"

text \<open>
  Two states of the cache for the request of \<open>preact\<close>, both with the \<open>.js\<close> file in
  place: one whose record says that there is a stylesheet while the \<open>.css\<close> file is
  missing, and one whose record does not decode.
\<close>

definition preact_js :: string where
  "preact_js = ''/data/builds/v1/preact@10.5.0/es2020/preact.js''"

definition css_missing_world :: world where
  "css_missing_world =
     \<lparr>db = [''v1/preact@10.5.0/es2020/preact'' \<mapsto> \<lparr>kv_importMeta = ''{}'', kv_css = [CHR 0x01]\<rparr>],
      files = [preact_js \<mapsto> ''export default 1;''],
      dirs = {}\<rparr>"

definition corrupt_meta_world :: world where
  "corrupt_meta_world =
     \<lparr>db = [''v1/preact@10.5.0/es2020/preact'' \<mapsto> \<lparr>kv_importMeta = ''{'', kv_css = [CHR 0x00]\<rparr>],
      files = [preact_js \<mapsto> ''export default 1;''],
      dirs = {}\<rparr>"

text \<open>
  The request of the submodule \<open>operators\<close> of \<open>rxjs\<close>, whose directory has a manifest of
  its own that points out of the directory.
\<close>

definition rxjs_operators_manifest :: NpmPackage where
  "rxjs_operators_manifest =
     zero_package\<lparr>Name := ''rxjs/operators'', Main := ''./index.js'',
                   Module := ''../_esm5/operators/index.js'', Typings := ''./index.d.ts''\<rparr>"

definition rxjs_env :: env where
  "rxjs_env =
     example_env\<lparr>installed := (\<lambda>p. p = ''/tmp/esmd-build/0123456789abcdef/node_modules/rxjs/operators/package.json''),
                  ParseJSONFile := (\<lambda>p. Inr rxjs_operators_manifest)\<rparr>"




text \<open>A bundler that fails to resolve \<open>fs\<close> whatever the externals are.\<close>

definition stuck_bundler :: "string list \<Rightarrow> BuildResult" where
  "stuck_bundler exts =
     \<lparr>OutputFiles = [], Errors = [''Could not resolve '' @ dq @ ''fs'' @ dq], Warnings = [],
      peerModulesForCommonjs = []\<rparr>"

text \<open>An installer that fails, and a store whose read fails.\<close>

definition yarn_fail_env :: env where
  "yarn_fail_env = example_env\<lparr>yarnAdd := (\<lambda>l. Some (Err ''yarn add failed''))\<rparr>"

definition get_fail_env :: env where
  "get_fail_env = example_env\<lparr>db_Get_fault := Some ''i/o timeout''\<rparr>"




section \<open>Properties of the build identifier\<close>

lemma fmt_d_buildVersion: "fmt_d buildVersion = ''1''"
  unfolding buildVersion_def by code_simp

lemma ReplaceAll_char:
  "strings_ReplaceAll s [a] [b] = map (\<lambda>c. if c = a then b else c) s"
proof (induction s)
  case Nil
  show ?case by (simp add: strings_ReplaceAll.simps)
next
  case (Cons c s)
  then show ?case
    by (subst strings_ReplaceAll.simps) simp
qed

lemma inj_module_key: "inj module_key"
  by (rule injI) (simp add: module_key_def)

lemma sort_Sort_unique:
  assumes "mset ys = mset xs" and "sorted (map module_key ys)"
  shows "ys = sort_Sort xs"
  unfolding sort_Sort_def
  using assms inj_module_key
  by (metis sort_key_inj_key_eq subset_UNIV inj_on_subset)

lemma sort_Sort_perm: "mset xs' = mset xs \<Longrightarrow> sort_Sort xs' = sort_Sort xs"
  unfolding sort_Sort_def
  by (rule sort_key_eq_sort_key) (auto intro: inj_on_subset [OF inj_module_key])

text \<open>
  C3. For a request with exactly one package the build identifier is the plain string
  \<open>v<BV>/<name>@<version>/<targetSegment>/<filename>\<close>: no hash is applied. The target
  segment is the target, or \<open>external=<joined>/<target>\<close> when the request has externals,
  where every \<open>/\<close> of the joined externals is replaced by \<open>_\<close>; the file name is the
  submodule when there is one and the base name of the package name otherwise, with
  \<open>.development\<close> appended in development mode.
\<close>

theorem single_buildID_shape:
  assumes "packages options = [pkg]"
  shows "compute_buildID S options =
           ''v1/'' @ name pkg @ ''@'' @ version pkg @ ''/''
           @ (if external options = [] then target options
              else ''external='' @ map (\<lambda>c. if c = CHR ''/'' then CHR ''_'' else c) (S (external options))
                     @ ''/'' @ target options)
           @ ''/''
           @ (if submodule pkg \<noteq> [] then submodule pkg else path_Base (name pkg))
           @ (if isDev options then ''.development'' else [])"
  using assms
  by (simp add: compute_buildID_def fingerprint_def single_buildID_def fmt_d_buildVersion ReplaceAll_char
      Let_def)

theorem single_buildID_shape_witness:
  "compute_buildID refs_joined
     \<lparr>packages = [\<lparr>name = ''preact'', version = ''10.5.0'', submodule = []\<rparr>],
      external = [], target = ''es2020'', isDev = False\<rparr>
   = ''v1/preact@10.5.0/es2020/preact''"
  using single_buildID_shape [of
      "\<lparr>packages = [\<lparr>name = ''preact'', version = ''10.5.0'', submodule = []\<rparr>],
        external = [], target = ''es2020'', isDev = False\<rparr>"
      "\<lparr>name = ''preact'', version = ''10.5.0'', submodule = []\<rparr>" refs_joined]
  by (simp add: path_Base_def)

text \<open>
  C1. The build identifier is a function of the request alone. For a request with two or
  more packages it is \<open>bundle-\<close> followed by the lower-case base32 encoding of the SHA-1
  digest of \<open>v<BV>/<sorted packages>/<sorted externals>/<target>/<dev>\<close>, and permuting the
  packages and the externals of the request does not change it.
\<close>

theorem bundle_buildID_permutation:
  assumes "2 \<le> length pkgs" and "mset pkgs' = mset pkgs" and "mset ext' = mset ext"
  shows "compute_buildID S \<lparr>packages = pkgs', external = ext', target = t, isDev = d\<rparr>
           = compute_buildID S \<lparr>packages = pkgs, external = ext, target = t, isDev = d\<rparr>
         \<and> compute_buildID S \<lparr>packages = pkgs, external = ext, target = t, isDev = d\<rparr>
           = ''bundle-'' @ strings_ToLower (base32_EncodeToString (sha1_Sum
               (''v1/'' @ S (sort_Sort pkgs) @ ''/'' @ S (sort_Sort ext) @ ''/'' @ t @ ''/''
                  @ fmt_v d)))"
proof -
  have "length pkgs' = length pkgs"
    using assms(2) by (metis size_mset)
  with assms(1) have "length pkgs \<noteq> 1" "length pkgs' \<noteq> 1"
    by simp_all
  then show ?thesis
    using sort_Sort_perm [OF assms(2)] sort_Sort_perm [OF assms(3)]
    by (simp add: compute_buildID_def fingerprint_def bundle_buildID_def fmt_d_buildVersion Let_def)
qed

theorem bundle_buildID_permutation_witness:
  "compute_buildID refs_joined
     \<lparr>packages = [\<lparr>name = ''lit-html'', version = ''2'', submodule = []\<rparr>,
                  \<lparr>name = ''lit-element'', version = ''3'', submodule = []\<rparr>],
      external = [], target = ''es2020'', isDev = False\<rparr>
   = compute_buildID refs_joined
     \<lparr>packages = [\<lparr>name = ''lit-element'', version = ''3'', submodule = []\<rparr>,
                  \<lparr>name = ''lit-html'', version = ''2'', submodule = []\<rparr>],
      external = [], target = ''es2020'', isDev = False\<rparr>"
  using bundle_buildID_permutation [of
      "[\<lparr>name = ''lit-element'', version = ''3'', submodule = []\<rparr>,
        \<lparr>name = ''lit-html'', version = ''2'', submodule = []\<rparr>]"
      "[\<lparr>name = ''lit-html'', version = ''2'', submodule = []\<rparr>,
        \<lparr>name = ''lit-element'', version = ''3'', submodule = []\<rparr>]"
      "[]" "[]" refs_joined "''es2020''" False]
  by simp

section \<open>Properties of the cache lookup\<close>

lemma fingerprint_snd: "\<exists>options'. fingerprint S options = (options', compute_buildID S options)"
  by (cases "fingerprint S options") (simp add: compute_buildID_def)

lemma preact_id: "compute_buildID refs_joined preact_request = ''v1/preact@10.5.0/es2020/preact''"
  by (simp add: compute_buildID_def fingerprint_def single_buildID_def preact_request_def
      fmt_d_buildVersion path_Base_def Let_def)

lemma preact_js_path:
  "path_Join [''/data'', ''builds'', ''v1/preact@10.5.0/es2020/preact.js''] = preact_js"
  by (simp add: path_Join_def path_Clean_def clean_step_def preact_js_def)

lemma preact_css_path:
  "path_Join [''/data'', ''builds'', ''v1/preact@10.5.0/es2020/preact.css'']
     = ''/data/builds/v1/preact@10.5.0/es2020/preact.css''"
  by (simp add: path_Join_def path_Clean_def clean_step_def)

text \<open>
  C9. A record that decodes, with its \<open>.js\<close> file in place and the css byte set, is a
  cache hit also when the \<open>.css\<close> file is missing: \<open>build\<close> returns at once with a nil
  error and \<open>hasCSS = false\<close>; nothing is purged and nothing is built (the state is
  unchanged).
\<close>

theorem css_sidecar_missing_still_hit:
  assumes "packages options \<noteq> []"
    and "bid = compute_buildID (moduleSlice_String e) options"
    and "db_Get_fault e = None" and "db w bid = Some p"
    and "json_Unmarshal e (kv_importMeta p) = (m, None)"
    and "kv_css p = [CHR 0x01]"
    and "fileExists w (path_Join [storageDir, ''builds'', bid @ ''.js''])"
    and "\<not> fileExists w (path_Join [storageDir, ''builds'', bid @ ''.css''])"
  shows "build e storageDir hostname options w
           = Some ((\<lparr>buildID = bid, importMeta = m, hasCSS = False\<rparr>, None), w)"
proof -
  have "lookup_cache e storageDir (zero_result\<lparr>buildID := bid\<rparr>) w
          = ((Hit, \<lparr>buildID = bid, importMeta = m, hasCSS = False\<rparr>), w)"
    using assms(3-8) by (simp add: lookup_cache_def db_Get_def zero_result_def)
  moreover obtain options' where "fingerprint (moduleSlice_String e) options = (options', bid)"
    using fingerprint_snd [of "moduleSlice_String e" options] assms(2) by auto
  ultimately show ?thesis
    using assms(1) by (simp add: build_def)
qed

theorem css_sidecar_missing_still_hit_witness:
  "build example_env ''/data'' ''esm.sh'' preact_request css_missing_world
     = Some ((\<lparr>buildID = ''v1/preact@10.5.0/es2020/preact'', importMeta = [], hasCSS = False\<rparr>, None),
             css_missing_world)"
proof -
  have "moduleSlice_String example_env = refs_joined" "db_Get_fault example_env = None"
       "json_Unmarshal example_env ''{}'' = ([], None)"
    by (simp_all add: example_env_def)
  moreover have "packages preact_request \<noteq> []"
    by (simp add: preact_request_def)
  moreover have "db css_missing_world ''v1/preact@10.5.0/es2020/preact''
                   = Some \<lparr>kv_importMeta = ''{}'', kv_css = [CHR 0x01]\<rparr>"
    by (simp add: css_missing_world_def)
  moreover have "fileExists css_missing_world preact_js"
                "\<not> fileExists css_missing_world ''/data/builds/v1/preact@10.5.0/es2020/preact.css''"
    by (simp_all add: fileExists_def css_missing_world_def preact_js_def)
  ultimately show ?thesis
    using css_sidecar_missing_still_hit [of preact_request "''v1/preact@10.5.0/es2020/preact''"
      example_env css_missing_world "\<lparr>kv_importMeta = ''{}'', kv_css = [CHR 0x01]\<rparr>" "[]"
      "''/data''" "''esm.sh''"]
    by (simp add: preact_id preact_js_path preact_css_path)
qed

lemma fileExists_db_update: "fileExists (w\<lparr>db := d\<rparr>) p = fileExists w p"
  by (simp add: fileExists_def)

lemma lookup_js_missing_purges:
  assumes "db_Get_fault e = None" and "db w bid = Some p"
    and "json_Unmarshal e (kv_importMeta p) = (m, None)"
    and "db_Delete_fault e 0 = None"
    and "\<not> fileExists w (path_Join [storageDir, ''builds'', bid @ ''.js''])"
  shows "\<exists>ret w'. lookup_cache e storageDir (zero_result\<lparr>buildID := bid\<rparr>) w = ((Miss, ret), w')
           \<and> db w' bid = None"
  using assms
  by (simp add: lookup_cache_def db_Get_def db_Delete_def zero_result_def fileExists_db_update Let_def)

lemma lookup_undecodable_with_js:
  assumes "db_Get_fault e = None" and "db w bid = Some p"
    and "json_Unmarshal e (kv_importMeta p) = (m, Some err)"
    and "db_Delete_fault e 0 = None"
    and "fileExists w (path_Join [storageDir, ''builds'', bid @ ''.js''])"
  shows "\<exists>ret w'. lookup_cache e storageDir (zero_result\<lparr>buildID := bid\<rparr>) w = ((Hit, ret), w')
           \<and> importMeta ret = m \<and> db w' bid = None"
  using assms
  by (simp add: lookup_cache_def db_Get_def db_Delete_def zero_result_def fileExists_db_update Let_def)

text \<open>
  C2. A record whose \<open>importMeta\<close> does not decode is deleted (line 101), but the
  control then reaches the test of line 111: with the \<open>.js\<close> file in place \<open>build\<close>
  returns ``has built'' with a nil error and the undecoded \<open>importMeta\<close>, instead of
  going on to build. The record whose \<open>.js\<close> file is missing is purged and reported as a
  miss (lemma \<open>lookup_js_missing_purges\<close>).
\<close>

theorem corrupt_meta_returned_as_hit:
  "build example_env ''/data'' ''esm.sh'' preact_request corrupt_meta_world
     = Some ((\<lparr>buildID = ''v1/preact@10.5.0/es2020/preact'', importMeta = [], hasCSS = False\<rparr>, None),
             corrupt_meta_world\<lparr>db := Map.empty\<rparr>)"
proof -
  have "lookup_cache example_env ''/data'' (zero_result\<lparr>buildID := ''v1/preact@10.5.0/es2020/preact''\<rparr>)
            corrupt_meta_world
          = ((Hit, \<lparr>buildID = ''v1/preact@10.5.0/es2020/preact'', importMeta = [], hasCSS = False\<rparr>),
             corrupt_meta_world\<lparr>db := Map.empty\<rparr>)"
    by (simp add: lookup_cache_def db_Get_def db_Delete_def zero_result_def example_env_def
        corrupt_meta_world_def fileExists_def preact_js_path)
  moreover have "moduleSlice_String example_env = refs_joined"
    by (simp add: example_env_def)
  moreover have "packages preact_request \<noteq> []"
    by (simp add: preact_request_def)
  moreover obtain options' where
    "fingerprint refs_joined preact_request = (options', ''v1/preact@10.5.0/es2020/preact'')"
    using fingerprint_snd [of refs_joined preact_request] preact_id by auto
  ultimately show ?thesis
    by (simp add: build_def)
qed

section \<open>Properties of the post-processor\<close>

lemma peer_import_stmts:
  "s \<in> set (fst (foldl (peer_import eol) st peers)) \<Longrightarrow>
     s \<in> set (fst st) \<or> take 9 s = ''import __''"
proof (induction peers arbitrary: st)
  case Nil
  then show ?case by simp
next
  case (Cons entry peers)
  from Cons.IH [OF Cons.prems [simplified]]
  show ?case
    by (cases st; cases entry) (auto simp: peer_import_def split: if_splits)
qed

lemma shim_not_import: "take 9 (setImmediate_shim eol) \<noteq> ''import __''"
  by (simp add: setImmediate_shim_def)

lemma shim_not_in_imports: "setImmediate_shim eol \<notin> set (fst (rewrite_requires eol peers out))"
  using peer_import_stmts [of "setImmediate_shim eol" eol "([], out)" peers] shim_not_import
  by (auto simp: rewrite_requires_def)

lemma rewrite_requires_no_url:
  "\<forall>entry \<in> set peers. snd entry = [] \<Longrightarrow> foldl (peer_import eol) st peers = st"
  by (induction peers arbitrary: st) (auto simp: peer_import_def split: prod.splits)

text \<open>
  C8 (amended). The statement that defines \<open>__setImmediate$\<close> is written in front of a
  \<open>.js\<close> output exactly when the output contains \<open>__setImmediate$$\<close> after the
  \<open>require("<name>")\<close> of the CommonJS peers have been rewritten (line 670 reads the
  rewritten bytes). When no peer has a URL the rewriting changes nothing, and the test is
  on the output of the bundler itself; an output with the single-dollar token only gets no
  shim.
\<close>

theorem setImmediate_shim_iff:
  "(setImmediate_shim eol \<in> set (js_prelude eol envname peers out)
      \<longleftrightarrow> bytes_Contains (snd (rewrite_requires eol peers out)) ''__setImmediate$$'')
   \<and> ((\<forall>entry \<in> set peers. snd entry = []) \<longrightarrow>
        (setImmediate_shim eol \<in> set (js_prelude eol envname peers out)
           \<longleftrightarrow> bytes_Contains out ''__setImmediate$$''))
   \<and> postprocess_js eol envname peers out
        = concat (js_prelude eol envname peers out) @ snd (rewrite_requires eol peers out)"
proof -
  have a: "setImmediate_shim eol \<in> set (js_prelude eol envname peers out)
      \<longleftrightarrow> bytes_Contains (snd (rewrite_requires eol peers out)) ''__setImmediate$$''"
    using shim_not_in_imports [of eol peers out]
    by (simp add: js_prelude_def Let_def setImmediate_shim_def)
  moreover have "(\<forall>entry \<in> set peers. snd entry = []) \<longrightarrow> snd (rewrite_requires eol peers out) = out"
    by (simp add: rewrite_requires_def rewrite_requires_no_url)
  ultimately show ?thesis
    by (auto simp: postprocess_js_def)
qed

theorem setImmediate_shim_iff_witness:
  "setImmediate_shim [] \<in> set (js_prelude [] ''production'' [] ''__setImmediate$$(f);'')
   \<and> setImmediate_shim [] \<notin> set (js_prelude [] ''production'' [] ''__setImmediate$(f);'')"
proof -
  have "bytes_Contains ''__setImmediate$$(f);'' ''__setImmediate$$''"
       "\<not> bytes_Contains ''__setImmediate$(f);'' ''__setImmediate$$''"
    by simp_all
  moreover have "\<forall>entry \<in> set ([] :: (string \<times> string) list). snd entry = []"
    by simp
  ultimately show ?thesis
    using setImmediate_shim_iff [of "[]" "''production''" "[]" "''__setImmediate$$(f);''"]
      setImmediate_shim_iff [of "[]" "''production''" "[]" "''__setImmediate$(f);''"]
    by blast
qed

text \<open>
  C8 as the specification states it reads the test on the output of the bundler. The output
  \<open>require("setImmediate")$\<close> does not contain the doubled token, but with the peer
  \<open>setImmediate\<close> rewritten to \<open>__setImmediate$\<close> the tested bytes do, and the shim is
  written.
\<close>

theorem shim_after_require_rewrite:
  "\<not> bytes_Contains (''require('' @ dq @ ''setImmediate'' @ dq @ '')$'') ''__setImmediate$$''
   \<and> setImmediate_shim []
       \<in> set (js_prelude [] ''production''
                [(''setImmediate'', ''/v1/setImmediate@1.0.0/es2020/setImmediate.js'')]
                (''require('' @ dq @ ''setImmediate'' @ dq @ '')$''))"
proof -
  have "snd (rewrite_requires [] [(''setImmediate'', ''/v1/setImmediate@1.0.0/es2020/setImmediate.js'')]
               (''require('' @ dq @ ''setImmediate'' @ dq @ '')$'')) = ''__setImmediate$$''"
    by (simp add: rewrite_requires_def peer_import_def identify_def dq_def strings_ReplaceAll.simps)
  then show ?thesis
    by (simp add: js_prelude_def dq_def Let_def)
qed

section \<open>Properties of the manifest rules\<close>

lemma init_meta_fields:
  "Name (init_meta p) = Name p" "Version (init_meta p) = Version p" "Main (init_meta p) = Main p"
  "Module (init_meta p) = Module p" "Type (init_meta p) = Type p" "Types (init_meta p) = Types p"
  "Typings (init_meta p) = Typings p" "DefinedExports (init_meta p) = DefinedExports p"
  "Dependencies (init_meta p) = Dependencies p" "PeerDependencies (init_meta p) = PeerDependencies p"
  "Exports (init_meta p) = []" "Dts (init_meta p) = []"
  by (simp_all add: init_meta_def NpmPackage.extend_def ImportMeta.fields_def)

lemma apply_meta_rules_plain:
  "Main (apply_meta_rules [] m) = Main m"
  "Types (apply_meta_rules [] m) = Types m"
  "Typings (apply_meta_rules [] m) = Typings m"
  "Module (apply_meta_rules [] m)
     = (if Module m \<noteq> [] then Module m
        else if Type m = ''module'' \<and> Main m \<noteq> [] then Main m
        else map_index (DefinedExports m) ''import'')"
  by (simp_all add: apply_meta_rules_def Let_def)

lemma apply_meta_rules_submodule:
  assumes "sub \<noteq> []"
  shows "Main (apply_meta_rules sub m) = sub" "Module (apply_meta_rules sub m) = []"
    "Types (apply_meta_rules sub m) = []" "Typings (apply_meta_rules sub m) = []"
    "Type (apply_meta_rules sub m) = Type m" "Name (apply_meta_rules sub m) = Name m"
  using assms by (simp_all add: apply_meta_rules_def Let_def)
lemma rederive_submodule_fields:
  "Main (rederive_submodule sub q m) = (if Main q \<noteq> [] then path_Join [sub, Main q] else Main m)"
  "Module (rederive_submodule sub q m)
     = (if Module q \<noteq> [] then path_Join [sub, Module q]
        else if Type m = ''module'' \<and> Main q \<noteq> [] then path_Join [sub, Main q]
        else Module m)"
  "Types (rederive_submodule sub q m) = (if Types q \<noteq> [] then path_Join [sub, Types q] else Types m)"
  "Typings (rederive_submodule sub q m)
     = (if Typings q \<noteq> [] then path_Join [sub, Typings q] else Typings m)"
proof -
  define m1 where "m1 = (if Main q \<noteq> [] then m\<lparr>Main := path_Join [sub, Main q]\<rparr> else m)"
  define m2 where "m2 = (if Module q \<noteq> [] then m1\<lparr>Module := path_Join [sub, Module q]\<rparr>
                  else if Type m1 = ''module'' \<and> Main q \<noteq> []
                  then m1\<lparr>Module := path_Join [sub, Main q]\<rparr>
                  else m1)"
  define m3 where "m3 = (if Types q \<noteq> [] then m2\<lparr>Types := path_Join [sub, Types q]\<rparr> else m2)"
  define m4 where "m4 = (if Typings q \<noteq> [] then m3\<lparr>Typings := path_Join [sub, Typings q]\<rparr> else m3)"
  have r: "rederive_submodule sub q m = m4"
    unfolding rederive_submodule_def m4_def m3_def m2_def m1_def Let_def by (rule refl)
  have f1: "Main m1 = (if Main q \<noteq> [] then path_Join [sub, Main q] else Main m)"
    "Module m1 = Module m" "Types m1 = Types m" "Typings m1 = Typings m" "Type m1 = Type m"
    by (simp_all add: m1_def)
  have f2: "Main m2 = Main m1" "Types m2 = Types m1" "Typings m2 = Typings m1"
    "Module m2 = (if Module q \<noteq> [] then path_Join [sub, Module q]
        else if Type m1 = ''module'' \<and> Main q \<noteq> [] then path_Join [sub, Main q]
        else Module m1)"
    by (simp_all add: m2_def)
  have f3: "Main m3 = Main m2" "Module m3 = Module m2" "Typings m3 = Typings m2"
    "Types m3 = (if Types q \<noteq> [] then path_Join [sub, Types q] else Types m2)"
    by (simp_all add: m3_def)
  have f4: "Main m4 = Main m3" "Module m4 = Module m3" "Types m4 = Types m3"
    "Typings m4 = (if Typings q \<noteq> [] then path_Join [sub, Typings q] else Typings m3)"
    by (simp_all add: m4_def)
  show "Main (rederive_submodule sub q m) = (if Main q \<noteq> [] then path_Join [sub, Main q] else Main m)"
    by (simp only: r f1 f2 f3 f4)
  show "Module (rederive_submodule sub q m)
     = (if Module q \<noteq> [] then path_Join [sub, Module q]
        else if Type m = ''module'' \<and> Main q \<noteq> [] then path_Join [sub, Main q]
        else Module m)"
    by (simp only: r f1 f2 f3 f4)
  show "Types (rederive_submodule sub q m) = (if Types q \<noteq> [] then path_Join [sub, Types q] else Types m)"
    by (simp only: r f1 f2 f3 f4)
  show "Typings (rederive_submodule sub q m)
     = (if Typings q \<noteq> [] then path_Join [sub, Typings q] else Typings m)"
    by (simp only: r f1 f2 f3 f4)
qed
lemma probe_submodule_manifest:
  assumes "sub \<noteq> []"
    and "installed e (path_Join [path_Join [path_Join [buildDir e, ''node_modules''], Name m], sub,
                                  ''package.json''])"
    and "ParseJSONFile e (path_Join [path_Join [path_Join [buildDir e, ''node_modules''], Name m], sub,
                                      ''package.json'']) = Inr q"
  shows "probe_submodule e \<lparr>name = n, version = v, submodule = sub\<rparr> m
           = Inr (False, rederive_submodule sub q m)"
  using assms by (simp add: probe_submodule_def Let_def)

lemma split_nonempty: "strings_Split s sep \<noteq> []"
  by (induction s) (auto split: list.splits)

lemma split_append:
  "strings_Split (a @ sep # b) sep = strings_Split a sep @ strings_Split b sep"
proof (induction a)
  case Nil
  show ?case by simp
next
  case (Cons c a)
  then show ?case
    using split_nonempty [of a sep]
    by (cases "strings_Split a sep") auto
qed

lemma join_split: "join_slash (strings_Split s CHR ''/'') = s"
proof (induction s)
  case Nil
  show ?case by simp
next
  case (Cons c s)
  obtain e es where es: "strings_Split s CHR ''/'' = e # es"
    using split_nonempty [of s] by (cases "strings_Split s CHR ''/''") auto
  with Cons show ?case
    by (cases es) auto
qed

lemma clean_step_plain:
  "c \<noteq> [] \<Longrightarrow> c \<noteq> ''.'' \<Longrightarrow> c \<noteq> ''..'' \<Longrightarrow> clean_step r out c = out @ [c]"
  unfolding clean_step_def by (simp only: if_False simp_thms)

lemma clean_plain:
  "\<forall>c \<in> set cs. c \<noteq> [] \<and> c \<noteq> ''.'' \<and> c \<noteq> ''..'' \<Longrightarrow> foldl (clean_step r) out cs = out @ cs"
proof (induction cs arbitrary: out)
  case Nil
  show ?case by simp
next
  case (Cons c cs)
  then have "clean_step r out c = out @ [c]"
    by (intro clean_step_plain) simp_all
  with Cons show ?case
    by simp
qed

lemma plain_path_relative:
  assumes "plain_path p"
  shows "p \<noteq> [] \<and> hd p \<noteq> CHR ''/''"
proof (cases p)
  case Nil
  with assms show ?thesis
    by (simp add: plain_path_def)
next
  case (Cons c s)
  have "[] \<in> set (strings_Split (CHR ''/'' # s) CHR ''/'')"
    by simp
  with assms Cons show ?thesis
    unfolding plain_path_def by (cases "c = CHR ''/''") (blast, simp)
qed

lemma path_Join_plain:
  assumes "plain_path sub" and "plain_path v"
  shows "path_Join [sub, v] = sub @ ''/'' @ v"
proof -
  have ne: "sub \<noteq> []" "v \<noteq> []" and hd: "hd sub \<noteq> CHR ''/''"
    using assms plain_path_relative by blast+
  let ?p = "sub @ ''/'' @ v"
  have sp: "strings_Split ?p CHR ''/'' = strings_Split sub CHR ''/'' @ strings_Split v CHR ''/''"
    using split_append [of sub "CHR ''/''" v] by simp
  have all: "\<forall>c \<in> set (strings_Split ?p CHR ''/''). c \<noteq> [] \<and> c \<noteq> ''.'' \<and> c \<noteq> ''..''"
    using assms unfolding sp plain_path_def by auto
  have p: "?p \<noteq> []" "hd ?p \<noteq> CHR ''/''"
    using ne hd by simp_all
  have out: "foldl (clean_step False) [] (strings_Split ?p CHR ''/'') = strings_Split ?p CHR ''/''"
    using clean_plain [OF all, of False "[]"] by simp
  have "path_Clean ?p = join_slash (strings_Split ?p CHR ''/'')"
    unfolding path_Clean_def Let_def using p out split_nonempty [of ?p "CHR ''/''"]
    by (simp only: if_False simp_thms)
  then have "path_Clean ?p = ?p"
    by (simp only: join_split)
  moreover have "join_slash (filter (\<lambda>e. e \<noteq> []) [sub, v]) = ?p"
    "filter (\<lambda>e. e \<noteq> []) [sub, v] \<noteq> []"
    using ne by simp_all
  ultimately show ?thesis
    unfolding path_Join_def Let_def by (simp only: if_False simp_thms)
qed

text \<open>
  C7 (amended). The fields of the meta of a requested package, from the manifest \<open>p\<close> of
  the registry. Without a submodule, \<open>main\<close>, \<open>types\<close> and \<open>typings\<close> are those of \<open>p\<close> and
  \<open>module\<close> is that of \<open>p\<close>, else \<open>main\<close> when the type is \<open>module\<close>, else
  \<open>definedExports["import"]\<close>. With a submodule, \<open>main\<close> is the submodule and \<open>module\<close>,
  \<open>types\<close> and \<open>typings\<close> are empty; when \<open><pkg>/<submodule>/package.json\<close> exists and
  parses to \<open>q\<close>, every non-empty \<open>main\<close>, \<open>module\<close>, \<open>types\<close> and \<open>typings\<close> of \<open>q\<close>
  replaces the field by \<open>path.Join(submodule, value)\<close>, and \<open>module\<close> falls back to the
  joined \<open>main\<close> of \<open>q\<close> when the type is \<open>module\<close>. The join is
  \<open><submodule>/<value>\<close> when both are plain paths (lemma \<open>path_Join_plain\<close>).
\<close>

theorem meta_rules:
  "(let m = apply_meta_rules sub (init_meta p)
    in (sub = [] \<longrightarrow>
          Main m = Main p \<and> Types m = Types p \<and> Typings m = Typings p
          \<and> Module m = (if Module p \<noteq> [] then Module p
                         else if Type p = ''module'' \<and> Main p \<noteq> [] then Main p
                         else map_index (DefinedExports p) ''import''))
       \<and> (sub \<noteq> [] \<longrightarrow>
            Main m = sub \<and> Module m = [] \<and> Types m = [] \<and> Typings m = []
            \<and> (let m' = rederive_submodule sub q m
                in Main m' = (if Main q \<noteq> [] then path_Join [sub, Main q] else sub)
                   \<and> Module m' = (if Module q \<noteq> [] then path_Join [sub, Module q]
                                   else if Type p = ''module'' \<and> Main q \<noteq> [] then path_Join [sub, Main q]
                                   else [])
                   \<and> Types m' = (if Types q \<noteq> [] then path_Join [sub, Types q] else [])
                   \<and> Typings m' = (if Typings q \<noteq> [] then path_Join [sub, Typings q] else []))
            \<and> (installed e (path_Join [path_Join [path_Join [buildDir e, ''node_modules''], Name p],
                                         sub, ''package.json''])
                  \<and> ParseJSONFile e (path_Join [path_Join [path_Join [buildDir e, ''node_modules''], Name p],
                                         sub, ''package.json'']) = Inr q
                \<longrightarrow> probe_submodule e \<lparr>name = n, version = v, submodule = sub\<rparr> m
                      = Inr (False, rederive_submodule sub q m))))"
proof -
  define m where "m = apply_meta_rules sub (init_meta p)"
  have plain: "sub = [] \<Longrightarrow>
          Main m = Main p \<and> Types m = Types p \<and> Typings m = Typings p
          \<and> Module m = (if Module p \<noteq> [] then Module p
                         else if Type p = ''module'' \<and> Main p \<noteq> [] then Main p
                         else map_index (DefinedExports p) ''import'')"
    unfolding m_def by (simp only: apply_meta_rules_plain init_meta_fields)
  have sub: "Main m = sub" "Module m = []" "Types m = []" "Typings m = []" "Type m = Type p"
     "Name m = Name p" if "sub \<noteq> []"
    unfolding m_def using that by (simp_all add: apply_meta_rules_submodule init_meta_fields)
  show ?thesis
    unfolding Let_def m_def [symmetric]
    using plain sub probe_submodule_manifest [of sub e m q n v]
    by (simp only: rederive_submodule_fields) simp
qed

lemma rxjs_paths:
  "path_Join [''operators'', ''./index.js''] = ''operators/index.js''"
  "path_Join [''operators'', ''../_esm5/operators/index.js''] = ''_esm5/operators/index.js''"
  "path_Join [''operators'', ''./index.d.ts''] = ''operators/index.d.ts''"
  "path_Join [path_Join [path_Join [''/tmp/esmd-build/0123456789abcdef'', ''node_modules''], ''rxjs''],
              ''operators'', ''package.json'']
     = ''/tmp/esmd-build/0123456789abcdef/node_modules/rxjs/operators/package.json''"
  by (simp_all add: path_Join_def path_Clean_def clean_step_def)

lemma rxjs_manifest_fields:
  "Main rxjs_operators_manifest = ''./index.js''"
  "Module rxjs_operators_manifest = ''../_esm5/operators/index.js''"
  "Types rxjs_operators_manifest = []"
  "Typings rxjs_operators_manifest = ''./index.d.ts''"
  by (simp_all add: rxjs_operators_manifest_def zero_package_def)

text \<open>
  C7 as the specification states it has every value derived from the manifest of the
  submodule prefixed by the submodule path. \<open>path.Join\<close> cleans the joined path: the \<open>module\<close>
  \<open>../_esm5/operators/index.js\<close> of \<open>rxjs/operators/package.json\<close> becomes
  \<open>_esm5/operators/index.js\<close>, which does not begin with \<open>operators\<close>.
\<close>

theorem submodule_module_leaves_submodule:
  "Module (rederive_submodule ''operators'' rxjs_operators_manifest
             (apply_meta_rules ''operators'' (init_meta (example_package ''rxjs'' ''6.6.7''))))
     = ''_esm5/operators/index.js''
   \<and> \<not> strings_HasPrefix ''_esm5/operators/index.js'' ''operators''"
  by (simp add: rederive_submodule_fields rxjs_manifest_fields rxjs_paths strings_HasPrefix_def)

theorem meta_rules_witness:
  "Module (apply_meta_rules []
             (init_meta (zero_package\<lparr>Name := ''nanoid'', Main := ''index.js'', Type := ''module''\<rparr>)))
     = ''index.js''
   \<and> Main (rederive_submodule ''operators'' rxjs_operators_manifest
               (apply_meta_rules ''operators'' (init_meta (example_package ''rxjs'' ''6.6.7''))))
       = ''operators/index.js''
   \<and> probe_submodule rxjs_env \<lparr>name = ''rxjs'', version = ''6.6.7'', submodule = ''operators''\<rparr>
         (apply_meta_rules ''operators'' (init_meta (example_package ''rxjs'' ''6.6.7'')))
       = Inr (False, rederive_submodule ''operators'' rxjs_operators_manifest
                       (apply_meta_rules ''operators'' (init_meta (example_package ''rxjs'' ''6.6.7''))))"
proof -
  let ?p = "zero_package\<lparr>Name := ''nanoid'', Main := ''index.js'', Type := ''module''\<rparr>"
  let ?r = "example_package ''rxjs'' ''6.6.7''"
  have p: "Module ?p = []" "Type ?p = ''module''" "Main ?p = ''index.js''"
    by (simp_all add: zero_package_def)
  have "Module (apply_meta_rules [] (init_meta ?p))
          = (if Module ?p \<noteq> [] then Module ?p
             else if Type ?p = ''module'' \<and> Main ?p \<noteq> [] then Main ?p
             else map_index (DefinedExports ?p) ''import'')"
    using meta_rules [of "[]" ?p rxjs_operators_manifest rxjs_env "''nanoid''" "''1''"]
    unfolding Let_def by blast
  then have a: "Module (apply_meta_rules [] (init_meta ?p)) = ''index.js''"
    by (simp only: p) simp
  have e: "buildDir rxjs_env = ''/tmp/esmd-build/0123456789abcdef''" "Name ?r = ''rxjs''"
    "installed rxjs_env ''/tmp/esmd-build/0123456789abcdef/node_modules/rxjs/operators/package.json''"
    "ParseJSONFile rxjs_env ''/tmp/esmd-build/0123456789abcdef/node_modules/rxjs/operators/package.json''
       = Inr rxjs_operators_manifest"
    by (simp_all add: rxjs_env_def example_env_def example_package_def zero_package_def)
  have s: "''operators'' \<noteq> ([] :: string)"
    by simp
  note r = meta_rules [of "''operators''" ?r rxjs_operators_manifest rxjs_env "''rxjs''" "''6.6.7''",
      unfolded Let_def e rxjs_paths, THEN conjunct2, rule_format, OF s]
  have b: "Main (rederive_submodule ''operators'' rxjs_operators_manifest
               (apply_meta_rules ''operators'' (init_meta ?r))) = ''operators/index.js''"
    using r by (simp add: rxjs_manifest_fields rxjs_paths)
  have c: "probe_submodule rxjs_env \<lparr>name = ''rxjs'', version = ''6.6.7'', submodule = ''operators''\<rparr>
         (apply_meta_rules ''operators'' (init_meta ?r))
       = Inr (False, rederive_submodule ''operators'' rxjs_operators_manifest
                       (apply_meta_rules ''operators'' (init_meta ?r)))"
    using r e by blast
  show ?thesis
    using a b c by (intro conjI)
qed

section \<open>Properties of the peer classification\<close>









lemma collect_fold_keys:
  "fst ` set (foldl (\<lambda>pd (n, v). AList.update n (f n v) pd) pd l) = fst ` set pd \<union> fst ` set l"
proof (induction l arbitrary: pd)
  case Nil
  show ?case by simp
next
  case (Cons nv l)
  obtain n v where nv: "nv = (n, v)"
    by (cases nv)
  show ?case
    unfolding nv foldl_Cons prod.case Cons.IH dom_update by auto
qed

lemma collect_peers_keys:
  "fst ` set (collect_peers p pd) = fst ` set pd \<union> fst ` set (PeerDependencies p)"
  unfolding collect_peers_def by (rule collect_fold_keys)

lemma resolve_collects_peers:
  "resolve_packages e pkgs (il, imeta, pd) = Inr (il', imeta', pd') \<Longrightarrow>
     fst ` set pd'
       = fst ` set pd
         \<union> (\<Union>pkg \<in> set pkgs. case getPackageInfo e (name pkg) (version pkg) of
                                    Inr p \<Rightarrow> fst ` set (PeerDependencies p)
                                  | Inl msg \<Rightarrow> {})"
proof (induction pkgs arbitrary: il imeta pd)
  case Nil
  then show ?case by simp
next
  case (Cons pkg pkgs)
  from Cons.prems obtain p il1 where p: "getPackageInfo e (name pkg) (version pkg) = Inr p"
    and "resolve_packages e pkgs
       (il1, AList.update (ImportPath pkg) (apply_meta_rules (submodule pkg) (init_meta p)) imeta,
        collect_peers p pd) = Inr (il', imeta', pd')"
    by (auto simp: Let_def split: sum.splits)
  from Cons.IH [OF this(2)] p show ?case
    by (simp add: collect_peers_keys Un_assoc)
qed












section \<open>Termination of the bundler retries\<close>

lemma scan_errors_exact:
  assumes "\<forall>t \<in> set ts. strings_HasPrefix t (''Could not resolve '' @ dq)"
  shows "\<exists>added. scan_errors ts ind extra = Inr (ind @ added, extra @ added) \<and> distinct added
           \<and> set added = {strings_Split t CHR 0x22 ! 1 |t. t \<in> set ts} - {[]} - set ind"
  using assms
proof (induction ts arbitrary: ind extra)
  case Nil
  show ?case by simp
next
  case (Cons t ts)
  let ?m = "strings_Split t CHR 0x22 ! 1"
  let ?names = "{strings_Split t CHR 0x22 ! 1 |t. t \<in> set ts}"
  have names: "{strings_Split u CHR 0x22 ! 1 |u. u \<in> set (t # ts)} = insert ?m ?names"
    by auto
  from Cons.prems have pre: "strings_HasPrefix t (''Could not resolve '' @ dq)"
    and rest: "\<forall>t \<in> set ts. strings_HasPrefix t (''Could not resolve '' @ dq)"
    by simp_all
  show ?case
  proof (cases "?m \<noteq> [] \<and> ?m \<notin> set ind")
    case True
    from Cons.IH [OF rest, of "ind @ [?m]" "extra @ [?m]"] obtain added where
      a: "scan_errors ts (ind @ [?m]) (extra @ [?m]) = Inr ((ind @ [?m]) @ added, (extra @ [?m]) @ added)"
      "distinct added" "set added = ?names - {[]} - set (ind @ [?m])"
      by blast
    have "scan_errors (t # ts) ind extra = Inr (ind @ (?m # added), extra @ (?m # added))"
      using True pre a(1) by (simp add: Let_def)
    moreover have "distinct (?m # added)"
      using a(2,3) by auto
    moreover have "set (?m # added) = insert ?m ?names - {[]} - set ind"
      using True a(3) by auto
    ultimately show ?thesis
      unfolding names by blast
  next
    case False
    from Cons.IH [OF rest, of ind extra] obtain added where
      a: "scan_errors ts ind extra = Inr (ind @ added, extra @ added)"
      "distinct added" "set added = ?names - {[]} - set ind"
      by blast
    have "scan_errors (t # ts) ind extra = Inr (ind @ added, extra @ added)"
      using False pre a(1) by (auto simp: Let_def)
    moreover have "set added = insert ?m ?names - {[]} - set ind"
      using False a(3) by auto
    ultimately show ?thesis
      unfolding names using a(2) by blast
  qed
qed

lemma scan_errors_fatal:
  assumes "\<exists>t \<in> set ts. \<not> strings_HasPrefix t (''Could not resolve '' @ dq)"
  shows "\<exists>err. scan_errors ts ind extra = Inl err"
  using assms by (induction ts arbitrary: ind extra) (auto simp: Let_def)

lemma scan_errors_Inr_prefix:
  assumes "scan_errors ts ind extra = Inr st"
  shows "\<forall>t \<in> set ts. strings_HasPrefix t (''Could not resolve '' @ dq)"
  using assms scan_errors_fatal [of ts ind extra] by auto

lemma esbuild_loop_step:
  assumes "\<forall>t \<in> set (Errors (bundler externals)). strings_HasPrefix t (''Could not resolve '' @ dq)"
  shows "\<exists>extra. distinct extra
           \<and> set extra = {strings_Split t CHR 0x22 ! 1 |t. t \<in> set (Errors (bundler externals))} - {[]} - set ind
           \<and> (if extra = [] then esbuild_loop bundler externals ind = Some (Inr (bundler externals, externals))
               else esbuild_loop bundler externals ind
                      = esbuild_loop bundler (externals @ extra) (ind @ extra))"
proof -
  from scan_errors_exact [OF assms, of ind "[]"] obtain extra where
    s: "scan_errors (Errors (bundler externals)) ind [] = Inr (ind @ extra, extra)"
    and d: "distinct extra"
    and e: "set extra = {strings_Split t CHR 0x22 ! 1 |t. t \<in> set (Errors (bundler externals))} - {[]} - set ind"
    by auto
  have "esbuild_loop bundler externals ind = Some (Inr (bundler externals, externals))" if "extra = []"
    using s that by (subst esbuild_loop.simps) (simp add: Let_def)
  moreover have "esbuild_loop bundler externals ind = esbuild_loop bundler (externals @ extra) (ind @ extra)"
    if "extra \<noteq> []"
  proof -
    from that e have "Errors (bundler externals) \<noteq> []"
      by auto
    with s that show ?thesis
      by (subst esbuild_loop.simps) (simp add: Let_def)
  qed
  ultimately show ?thesis
    using d e by (intro exI [of _ extra]) simp
qed

lemma esbuild_loop_fatal:
  assumes "\<exists>t \<in> set (Errors (bundler externals)). \<not> strings_HasPrefix t (''Could not resolve '' @ dq)"
  shows "\<exists>err. esbuild_loop bundler externals ind = Some (Inl err)"
proof -
  from scan_errors_fatal [OF assms, of ind "[]"] obtain err where
    "scan_errors (Errors (bundler externals)) ind [] = Inl err"
    by blast
  moreover from assms have "Errors (bundler externals) \<noteq> []"
    by auto
  ultimately show ?thesis
    by (subst esbuild_loop.simps) (simp add: Let_def)
qed

lemma esbuild_loop_returns:
  assumes "finite N"
    and "\<forall>exts. \<forall>t \<in> set (Errors (bundler exts)).
           strings_HasPrefix t (''Could not resolve '' @ dq) \<longrightarrow> strings_Split t CHR 0x22 ! 1 \<in> N"
  shows "\<exists>r. esbuild_loop bundler externals ind = Some r
           \<and> (\<forall>res exts. r = Inr (res, exts) \<longrightarrow>
                 res = bundler exts
                 \<and> (\<exists>added. exts = externals @ added \<and> set added \<subseteq> N - set ind \<and> distinct added
                        \<and> (\<forall>t \<in> set (Errors res).
                              strings_HasPrefix t (''Could not resolve '' @ dq)
                              \<and> (strings_Split t CHR 0x22 ! 1 = []
                                  \<or> strings_Split t CHR 0x22 ! 1 \<in> set ind \<union> set added))))"
proof (induction "card (N - set ind)" arbitrary: externals ind rule: less_induct)
  case less
  let ?res = "bundler externals"
  let ?pre = "\<lambda>t. strings_HasPrefix t (''Could not resolve '' @ dq)"
  show ?case
  proof (cases "\<forall>t \<in> set (Errors ?res). ?pre t")
    case False
    then obtain err where "esbuild_loop bundler externals ind = Some (Inl err)"
      using esbuild_loop_fatal [of bundler externals ind] by blast
    then show ?thesis
      by simp
  next
    case True
    from esbuild_loop_step [where bundler = bundler and externals = externals and ind = ind] True
    obtain extra where
      d: "distinct extra"
      and e: "set extra = {strings_Split t CHR 0x22 ! 1 |t. t \<in> set (Errors ?res)} - {[]} - set ind"
      and l: "if extra = [] then esbuild_loop bundler externals ind = Some (Inr (?res, externals))
              else esbuild_loop bundler externals ind = esbuild_loop bundler (externals @ extra) (ind @ extra)"
      by blast
    have inN: "set extra \<subseteq> N - set ind"
      using e True assms(2) by auto
    show ?thesis
    proof (cases "extra = []")
      case Nil: True
      have known: "\<forall>t \<in> set (Errors ?res). ?pre t
                     \<and> (strings_Split t CHR 0x22 ! 1 = [] \<or> strings_Split t CHR 0x22 ! 1 \<in> set ind \<union> set [])"
        using True e Nil by auto
      from l Nil have "esbuild_loop bundler externals ind = Some (Inr (?res, externals))"
        by simp
      with known show ?thesis
        by (auto intro!: exI [of _ "[]"])
    next
      case False
      then obtain x where x: "x \<in> set extra"
        by (cases extra) auto
      then have "x \<in> N - set ind" "x \<notin> N - set (ind @ extra)"
        using inN by auto
      moreover have "N - set (ind @ extra) \<subseteq> N - set ind"
        by auto
      ultimately have "N - set (ind @ extra) \<subset> N - set ind"
        by blast
      then have "card (N - set (ind @ extra)) < card (N - set ind)"
        using assms(1) by (intro psubset_card_mono) auto
      from less [OF this, of "externals @ extra"]
      obtain r where r: "esbuild_loop bundler (externals @ extra) (ind @ extra) = Some r"
        and rr: "\<And>res exts. r = Inr (res, exts) \<Longrightarrow>
                 res = bundler exts
                 \<and> (\<exists>added. exts = (externals @ extra) @ added \<and> set added \<subseteq> N - set (ind @ extra)
                        \<and> distinct added
                        \<and> (\<forall>t \<in> set (Errors res). ?pre t
                              \<and> (strings_Split t CHR 0x22 ! 1 = []
                                  \<or> strings_Split t CHR 0x22 ! 1 \<in> set (ind @ extra) \<union> set added)))"
        by blast
      from l False r have u: "esbuild_loop bundler externals ind = Some r"
        by simp
      have "res = bundler exts
            \<and> (\<exists>added. exts = externals @ added \<and> set added \<subseteq> N - set ind \<and> distinct added
                   \<and> (\<forall>t \<in> set (Errors res). ?pre t
                         \<and> (strings_Split t CHR 0x22 ! 1 = []
                             \<or> strings_Split t CHR 0x22 ! 1 \<in> set ind \<union> set added)))"
        if "r = Inr (res, exts)" for res exts
      proof -
        from rr [OF that] obtain added where
          a: "res = bundler exts" "exts = (externals @ extra) @ added"
          "set added \<subseteq> N - set (ind @ extra)" "distinct added"
          "\<forall>t \<in> set (Errors res). ?pre t
             \<and> (strings_Split t CHR 0x22 ! 1 = []
                 \<or> strings_Split t CHR 0x22 ! 1 \<in> set (ind @ extra) \<union> set added)"
          by blast
        have "exts = externals @ (extra @ added)" "set (extra @ added) \<subseteq> N - set ind"
          "distinct (extra @ added)"
          using a(2,3,4) d inN by auto
        moreover have "\<forall>t \<in> set (Errors res). ?pre t
             \<and> (strings_Split t CHR 0x22 ! 1 = []
                 \<or> strings_Split t CHR 0x22 ! 1 \<in> set ind \<union> set (extra @ added))"
          using a(5) by auto
        ultimately show ?thesis
          using a(1) by blast
      qed
      with u show ?thesis
        by blast
    qed
  qed
qed

text \<open>
  C6. The retry loop returns whenever the modules that the bundler reports as unresolved
  are drawn from a finite set \<open>N\<close> (the names that occur in the source). One run of the
  bundler whose errors are all \<open>Could not resolve\<close> is followed by a retry exactly when
  one of the reported names is not empty and not yet in \<open>indirectRequires\<close>; the retry
  runs with every such name, once, added to \<open>indirectRequires\<close> and appended to the
  externals. When no reported name is new the loop returns the result of this run without
  a retry, and any other error ends the loop with that error. So the externals grow by
  distinct names of \<open>N\<close> that were not seen before, and the result returned is that of the
  bundler on the final externals, whose errors name no module that is new.
\<close>

theorem esbuild_loop_terminates:
  assumes "finite N"
    and "\<forall>exts. \<forall>t \<in> set (Errors (bundler exts)).
           strings_HasPrefix t (''Could not resolve '' @ dq) \<longrightarrow> strings_Split t CHR 0x22 ! 1 \<in> N"
  shows "(\<exists>r. esbuild_loop bundler externals ind = Some r
            \<and> (\<forall>res exts. r = Inr (res, exts) \<longrightarrow>
                  res = bundler exts
                  \<and> (\<exists>added. exts = externals @ added \<and> set added \<subseteq> N - set ind \<and> distinct added
                         \<and> (\<forall>t \<in> set (Errors res).
                               strings_HasPrefix t (''Could not resolve '' @ dq)
                               \<and> (strings_Split t CHR 0x22 ! 1 = []
                                   \<or> strings_Split t CHR 0x22 ! 1 \<in> set ind \<union> set added)))))
         \<and> ((\<forall>t \<in> set (Errors (bundler externals)). strings_HasPrefix t (''Could not resolve '' @ dq))
              \<longrightarrow> (\<exists>extra. distinct extra
                     \<and> set extra = {strings_Split t CHR 0x22 ! 1 |t. t \<in> set (Errors (bundler externals))}
                                     - {[]} - set ind
                     \<and> (if extra = []
                         then esbuild_loop bundler externals ind = Some (Inr (bundler externals, externals))
                         else esbuild_loop bundler externals ind
                                = esbuild_loop bundler (externals @ extra) (ind @ extra))))
         \<and> ((\<exists>t \<in> set (Errors (bundler externals)). \<not> strings_HasPrefix t (''Could not resolve '' @ dq))
              \<longrightarrow> (\<exists>err. esbuild_loop bundler externals ind = Some (Inl err)))"
  using esbuild_loop_returns [OF assms, of externals ind]
    esbuild_loop_step [of bundler externals ind] esbuild_loop_fatal [of bundler externals ind]
  by (intro conjI impI) assumption+

theorem esbuild_loop_terminates_witness:
  "esbuild_loop stuck_bundler [] [] = Some (Inr (stuck_bundler [''fs''], [''fs'']))"
proof -
  have n: "strings_Split (''Could not resolve '' @ dq @ ''fs'' @ dq) CHR 0x22 ! 1 = ''fs''"
    by (simp add: dq_def)
  have p: "strings_HasPrefix (''Could not resolve '' @ dq @ ''fs'' @ dq) (''Could not resolve '' @ dq)"
    by (simp add: strings_HasPrefix_def dq_def)
  have f: "finite {''fs''}"
    by simp
  have h: "\<forall>exts. \<forall>t \<in> set (Errors (stuck_bundler exts)).
             strings_HasPrefix t (''Could not resolve '' @ dq) \<longrightarrow> strings_Split t CHR 0x22 ! 1 \<in> {''fs''}"
    using n by (simp add: stuck_bundler_def)
  have a: "\<forall>t \<in> set (Errors (stuck_bundler exts)). strings_HasPrefix t (''Could not resolve '' @ dq)"
    for exts
    using p by (simp add: stuck_bundler_def)
  have names: "{strings_Split t CHR 0x22 ! 1 |t. t \<in> set (Errors (stuck_bundler exts))} = {''fs''}"
    for exts
    using n by (simp add: stuck_bundler_def)
  from esbuild_loop_terminates [OF f h, of "[]" "[]"] a [of "[]"]
  obtain extra where e: "distinct extra" "set extra = {''fs''}"
    "if extra = [] then esbuild_loop stuck_bundler [] [] = Some (Inr (stuck_bundler [], []))
     else esbuild_loop stuck_bundler [] [] = esbuild_loop stuck_bundler ([] @ extra) ([] @ extra)"
    unfolding names by auto
  from e(1,2) have "extra = [''fs'']"
  proof (cases extra)
    case Nil
    with e(2) show ?thesis by simp
  next
    case (Cons x xs)
    with e(1,2) have "x = ''fs''" "set xs \<subseteq> {''fs''}" "''fs'' \<notin> set xs"
      by auto
    then have "xs = []"
      by (cases xs) auto
    with Cons \<open>x = ''fs''\<close> show ?thesis by simp
  qed
  with e(3) have first: "esbuild_loop stuck_bundler [] [] = esbuild_loop stuck_bundler [''fs''] [''fs'']"
    by simp
  from esbuild_loop_terminates [OF f h, of "[''fs'']" "[''fs'']"] a [of "[''fs'']"]
  obtain extra' where e': "set extra' = {}"
    "if extra' = [] then esbuild_loop stuck_bundler [''fs''] [''fs'']
                           = Some (Inr (stuck_bundler [''fs''], [''fs'']))
     else esbuild_loop stuck_bundler [''fs''] [''fs'']
            = esbuild_loop stuck_bundler ([''fs''] @ extra') ([''fs''] @ extra')"
    unfolding names by auto
  then have "esbuild_loop stuck_bundler [''fs''] [''fs''] = Some (Inr (stuck_bundler [''fs''], [''fs'']))"
    by simp
  with first show ?thesis
    by simp
qed

section \<open>The write of the record\<close>

lemmas branch_congs = sum.case_cong option.case_cong prod.case_cong bool.case_cong if_cong

lemma db_Get_Put_fault: "db_Get (e\<lparr>db_Put_fault := f\<rparr>) = db_Get e"
  by (rule ext)+ (simp add: db_Get_def)

lemma db_Delete_Put_fault: "db_Delete (e\<lparr>db_Put_fault := f\<rparr>) = db_Delete e"
  by (rule ext)+ (simp add: db_Delete_def)

lemma lookup_cache_Put_fault: "lookup_cache (e\<lparr>db_Put_fault := f\<rparr>) = lookup_cache e"
  by (rule ext)+ (simp add: lookup_cache_def db_Get_Put_fault db_Delete_Put_fault Let_def cong: branch_congs)

lemma types_install_Put_fault: "types_install (e\<lparr>db_Put_fault := f\<rparr>) = types_install e"
  by (rule ext)+ (simp add: types_install_def cong: branch_congs)

lemma resolve_packages_Put_fault:
  "resolve_packages (e\<lparr>db_Put_fault := f\<rparr>) pkgs st = resolve_packages e pkgs st"
  by (induction e pkgs st rule: resolve_packages.induct)
    (simp_all add: types_install_Put_fault Let_def cong: branch_congs)

lemma probe_package_Put_fault: "probe_package (e\<lparr>db_Put_fault := f\<rparr>) = probe_package e"
  by (rule ext)+ (simp add: probe_package_def probe_submodule_def probe_module_def Let_def cong: branch_congs)

lemma probe_packages_Put_fault:
  "probe_packages (e\<lparr>db_Put_fault := f\<rparr>) pkgs imeta = probe_packages e pkgs imeta"
  by (induction pkgs arbitrary: imeta) (simp_all add: probe_package_Put_fault cong: branch_congs)

lemma getTypesPath_Put_fault: "getTypesPath (e\<lparr>db_Put_fault := f\<rparr>) = getTypesPath e"
  by (rule ext)+ (simp add: getTypesPath_def Let_def cong: branch_congs)

lemma find_types_Put_fault: "find_types (e\<lparr>db_Put_fault := f\<rparr>) = find_types e"
  by (rule ext)+ (simp add: find_types_def getTypesPath_Put_fault Let_def cong: branch_congs)

lemma copy_types_Put_fault:
  "copy_types (e\<lparr>db_Put_fault := f\<rparr>) sd h options pkgs imeta = copy_types e sd h options pkgs imeta"
  by (induction pkgs arbitrary: imeta) (simp_all add: find_types_Put_fault cong: branch_congs)

lemma read_peers_Put_fault:
  "read_peers (e\<lparr>db_Put_fault := f\<rparr>) l acc = read_peers e l acc"
  by (induction l arbitrary: acc) (auto cong: branch_congs)

lemma compute_externals_Put_fault: "compute_externals (e\<lparr>db_Put_fault := f\<rparr>) = compute_externals e"
  by (rule ext)+ (simp add: compute_externals_def read_peers_Put_fault cong: branch_congs)

lemma banner_Put_fault: "banner (e\<lparr>db_Put_fault := f\<rparr>) = banner e"
  by (rule ext)+ (simp add: banner_def Let_def cong: branch_congs)

lemma process_outputs_Put_fault:
  "process_outputs (e\<lparr>db_Put_fault := f\<rparr>) sd bid eol envname peers outs js css w
     = process_outputs e sd bid eol envname peers outs js css w"
proof (induction outs arbitrary: js css w)
  case Nil
  show ?case by simp
next
  case (Cons out outs)
  obtain p c where "out = (p, c)"
    by (cases out)
  with Cons show ?case
    by (simp add: Let_def cong: branch_congs)
qed

lemma commit_result:
  "fst (commit e sd ret imeta css js w)
     = (case os_Create_fault e (path_Join [sd, ''builds'', buildID ret @ ''.js'']) of
          Some msg \<Rightarrow> (ret, Some (Err msg))
        | None \<Rightarrow>
            (case io_Copy_fault e (path_Join [sd, ''builds'', buildID ret @ ''.js'']) of
               Some msg \<Rightarrow> (ret, Some (Err msg))
             | None \<Rightarrow> (ret\<lparr>importMeta := imeta, hasCSS := (hd css = CHR 0x01)\<rparr>, None)))"
  by (simp add: commit_def Let_def split: option.splits)

lemma commit_Put_fault:
  "fst (commit (e\<lparr>db_Put_fault := f\<rparr>) sd ret imeta css js w) = fst (commit e sd ret imeta css js w)"
  by (simp add: commit_result cong: branch_congs)

lemma bundle_stubs_Put_fault:
  "bundle_stubs (e\<lparr>db_Put_fault := f\<rparr>) pkgs imeta = bundle_stubs e pkgs imeta"
  by (induction pkgs) (simp_all add: bundle_stub_def Let_def cong: branch_congs)

lemma entry_stub_Put_fault: "entry_stub (e\<lparr>db_Put_fault := f\<rparr>) = entry_stub e"
  by (rule ext)+
    (simp add: entry_stub_def single_stub_def bundle_stubs_Put_fault Let_def cong: branch_congs)

lemma finish_build_Put_fault:
  "fst (finish_build (e\<lparr>db_Put_fault := f\<rparr>) sd options ret imeta result w)
     = fst (finish_build e sd options ret imeta result w)"
  unfolding finish_build_def
  by (simp add: banner_Put_fault process_outputs_Put_fault commit_Put_fault Let_def
      split: sum.splits prod.splits)

lemma build_in_dir_Put_fault:
  "map_option fst (build_in_dir (e\<lparr>db_Put_fault := f\<rparr>) sd h options ret il imeta pp w)
     = map_option fst (build_in_dir e sd h options ret il imeta pp w)"
  unfolding build_in_dir_def
  by (simp add: probe_packages_Put_fault copy_types_Put_fault compute_externals_Put_fault
      entry_stub_Put_fault finish_build_Put_fault split: option.splits sum.splits prod.splits)

lemma map_fst_cleanup:
  "map_option fst (case x of None \<Rightarrow> None | Some (r, w) \<Rightarrow> Some (r, g w)) = map_option fst x"
  by (cases x) auto

lemma build_Put_fault:
  "map_option fst (build (e\<lparr>db_Put_fault := f\<rparr>) sd h options w) = map_option fst (build e sd h options w)"
  unfolding build_def
  by (simp add: lookup_cache_Put_fault resolve_packages_Put_fault map_fst_cleanup
      build_in_dir_Put_fault split: prod.splits lookup.splits sum.splits)

lemma commit_failed_put:
  "os_Create_fault e (path_Join [sd, ''builds'', buildID ret @ ''.js'']) = None \<Longrightarrow>
   io_Copy_fault e (path_Join [sd, ''builds'', buildID ret @ ''.js'']) = None \<Longrightarrow>
   db (snd (commit (e\<lparr>db_Put_fault := Some msg\<rparr>) sd ret imeta css js w)) = db w"
  by (simp add: commit_def db_Put_def Let_def)

text \<open>
  C10. The result of \<open>db.Put\<close> is not looked at. What \<open>build\<close> returns (the results
  \<open>ret\<close> and \<open>err\<close>) is the same whether the write of the record fails or not; and once
  the \<open>.js\<close> file is created and written, lines 711 to 722 return a nil error with the
  computed \<open>importMeta\<close> and the css flag, also when \<open>db.Put\<close> fails and the store keeps
  no record.
\<close>

theorem put_result_ignored:
  "map_option fst (build (e\<lparr>db_Put_fault := f\<rparr>) storageDir hostname options w)
     = map_option fst (build e storageDir hostname options w)
   \<and> (os_Create_fault e (path_Join [storageDir, ''builds'', buildID ret @ ''.js'']) = None
        \<and> io_Copy_fault e (path_Join [storageDir, ''builds'', buildID ret @ ''.js'']) = None
      \<longrightarrow> fst (commit (e\<lparr>db_Put_fault := f\<rparr>) storageDir ret imeta css js w')
            = (ret\<lparr>importMeta := imeta, hasCSS := (hd css = CHR 0x01)\<rparr>, None)
          \<and> (\<forall>msg. db (snd (commit (e\<lparr>db_Put_fault := Some msg\<rparr>) storageDir ret imeta css js w'))
                     = db w'))"
  using build_Put_fault [where e = e and f = f and sd = storageDir and h = hostname
      and options = options and w = w]
    commit_failed_put [where e = e and sd = storageDir and ret = ret and imeta = imeta and css = css
      and js = js and w = w']
  by (simp add: commit_result)

lemma preact_build:
  "map_option fst (build example_env ''/data'' ''esm.sh'' preact_request empty_world)
     = Some (\<lparr>buildID = ''v1/preact@10.5.0/es2020/preact'',
              importMeta =
                [(''preact'',
                  \<lparr>Name = ''preact'', Version = ''10.5.0'', Main = ''index.js'', Module = [], Type = [],
                   Types = ''index.d.ts'', Typings = [], DefinedExports = [], Dependencies = [],
                   PeerDependencies = [], Exports = [''default''], Dts = ''/preact@10.5.0/index.d.ts''\<rparr>)],
              hasCSS = False\<rparr>, None)"
  by code_simp

theorem put_result_ignored_witness:
  "map_option fst (build (example_env\<lparr>db_Put_fault := Some ''disk full''\<rparr>) ''/data'' ''esm.sh''
                     preact_request empty_world)
     = Some (\<lparr>buildID = ''v1/preact@10.5.0/es2020/preact'',
              importMeta =
                [(''preact'',
                  \<lparr>Name = ''preact'', Version = ''10.5.0'', Main = ''index.js'', Module = [], Type = [],
                   Types = ''index.d.ts'', Typings = [], DefinedExports = [], Dependencies = [],
                   PeerDependencies = [], Exports = [''default''], Dts = ''/preact@10.5.0/index.d.ts''\<rparr>)],
              hasCSS = False\<rparr>, None)
   \<and> fst (commit (example_env\<lparr>db_Put_fault := Some ''disk full''\<rparr>) ''/data''
            (zero_result\<lparr>buildID := ''v1/preact@10.5.0/es2020/preact''\<rparr>) [] [CHR 0x00]
            ''export default 1;'' empty_world)
       = (\<lparr>buildID = ''v1/preact@10.5.0/es2020/preact'', importMeta = [], hasCSS = False\<rparr>, None)"
proof -
  have "os_Create_fault example_env p = None" "io_Copy_fault example_env p = None" for p
    by (simp_all add: example_env_def)
  with put_result_ignored [where e = example_env and f = "Some ''disk full''" and storageDir = "''/data''"
      and hostname = "''esm.sh''" and options = preact_request and w = empty_world
      and ret = "zero_result\<lparr>buildID := ''v1/preact@10.5.0/es2020/preact''\<rparr>" and imeta = "[]"
      and css = "[CHR 0x00]" and js = "''export default 1;''" and w' = empty_world]
  show ?thesis
    by (simp add: preact_build zero_result_def)
qed

section \<open>Builds that end in an error\<close>

lemma lookup_cache_effect:
  assumes "lookup_cache e sd ret w = ((out, ret'), w')"
  shows "buildID ret' = buildID ret" "files w' = files w" "dirs w' = dirs w"
    "db w' = db w \<or> db w' = (db w)(buildID ret := None)"
    "out = Miss \<Longrightarrow> db w' (buildID ret) = None"
  using assms
  by (auto simp: lookup_cache_def db_Get_def db_Delete_def Let_def
      split: sum.splits option.splits prod.splits if_splits)

lemma process_outputs_effect:
  "process_outputs e sd bid eol envname peers outs js css w = (r, w') \<Longrightarrow>
     db w' = db w \<and> dirs w' = dirs w"
proof (induction outs arbitrary: js css w)
  case Nil
  then show ?case by simp
next
  case (Cons out outs)
  obtain p c where out: "out = (p, c)"
    by (cases out)
  show ?case
  proof (cases "strings_HasSuffix p ''.js''")
    case True
    with Cons.prems out Cons.IH show ?thesis
      by simp
  next
    case js: False
    show ?thesis
    proof (cases "strings_HasSuffix p ''.css''")
      case False
      with js Cons.prems out Cons.IH show ?thesis
        by simp
    next
      case True
      let ?f = "path_Join [sd, ''builds'', bid @ ''.css'']"
      show ?thesis
      proof (cases "os_Create_fault e ?f")
        case (Some msg)
        with True js Cons.prems out show ?thesis
          by (simp add: Let_def)
      next
        case None
        show ?thesis
        proof (cases "io_Copy_fault e ?f")
          case (Some msg)
          with None True js Cons.prems out show ?thesis
            by (auto simp: Let_def)
        next
          case cp: None
          with None True js Cons.prems out
          have "process_outputs e sd bid eol envname peers outs js [CHR 0x01]
                  (w\<lparr>files := (files w)(?f \<mapsto> c)\<rparr>) = (r, w')"
            by (simp add: Let_def)
          from Cons.IH [OF this] show ?thesis
            by simp
        qed
      qed
    qed
  qed
qed

lemma commit_effect:
  assumes "commit e sd ret imeta css js w = ((ret', err), w')"
  shows "dirs w' = dirs w \<and> (err \<noteq> None \<longrightarrow> db w' = db w \<and> ret' = ret)"
  using assms
  by (auto simp: commit_def db_Put_def Let_def split: option.splits)

lemma finish_build_effect:
  assumes "finish_build e sd options ret imeta result w = ((ret', err), w')"
  shows "dirs w' = dirs w \<and> (err \<noteq> None \<longrightarrow> db w' = db w \<and> ret' = ret)"
proof -
  let ?po = "process_outputs e sd (buildID ret) (if isDev options then EOL e else [])
               (if isDev options then ''development'' else ''production'')
               (peerModulesForCommonjs result) (OutputFiles result)
               (banner e options imeta (if isDev options then ''development'' else ''production''))
               [CHR 0x00] w"
  obtain r w1 where po: "?po = (r, w1)"
    by (cases ?po)
  note eff = process_outputs_effect [OF po]
  show ?thesis
  proof (cases r)
    case (Inl x)
    with assms po eff show ?thesis
      by (simp add: finish_build_def Let_def)
  next
    case (Inr jc)
    obtain js css where "jc = (js, css)"
      by (cases jc)
    with Inr assms po have "commit e sd ret imeta css js w1 = ((ret', err), w')"
      by (simp add: finish_build_def Let_def)
    from commit_effect [OF this] eff show ?thesis
      by auto
  qed
qed

lemma build_in_dir_effect:
  assumes "build_in_dir e sd h options ret il imeta pp w = Some ((ret', err), w')"
  shows "dirs w' = dirs w \<and> (err \<noteq> None \<longrightarrow> db w' = db w \<and> ret' = ret)"
  using assms
  unfolding build_in_dir_def
  by (auto split: option.splits sum.splits prod.splits dest!: finish_build_effect)

text \<open>
  C5 (amended). When \<open>build\<close> ends in an error it has written no record: the store
  is as it was before the call, or has lost the record of the build identifier to the
  purge of the lookup. When the error comes after the lookup has missed, the store has no
  record for the identifier. No working directory is left behind: the one made for the
  build is removed.
\<close>

theorem failed_build_writes_no_record:
  assumes "build e storageDir hostname options w = Some ((ret, Some err), w')"
  shows "(db w' = db w \<or> db w' = (db w)(buildID ret := None))
         \<and> (lookup_missed e storageDir options w \<longrightarrow> db w' (buildID ret) = None)
         \<and> dirs w' \<subseteq> dirs w
         \<and> (workdir_made e storageDir options w \<longrightarrow> buildDir e \<notin> dirs w')"
proof (cases "length (packages options) = 0")
  case True
  with assms show ?thesis
    by (simp add: build_def lookup_missed_def workdir_made_def)
next
  case False
  let ?bid = "compute_buildID (moduleSlice_String e) options"
  obtain options' where fp: "fingerprint (moduleSlice_String e) options = (options', ?bid)"
    using fingerprint_snd by blast
  obtain out ret1 w1 where
    lk: "lookup_cache e storageDir (zero_result\<lparr>buildID := ?bid\<rparr>) w = ((out, ret1), w1)"
    by (metis prod.collapse)
  from lookup_cache_effect [OF lk]
  have id: "buildID ret1 = ?bid" and d1: "dirs w1 = dirs w"
    and db1: "db w1 = db w \<or> db w1 = (db w)(?bid := None)"
    and miss: "out = Miss \<Longrightarrow> db w1 ?bid = None"
    by (simp_all add: zero_result_def)
  have lm: "lookup_missed e storageDir options w \<longleftrightarrow> out = Miss"
    using False lk by (simp add: lookup_missed_def)
  show ?thesis
  proof (cases out)
    case Hit
    with assms False fp lk show ?thesis
      by (simp add: build_def)
  next
    case (Failed x)
    with assms False fp lk have "ret = ret1" "w' = w1"
      by (simp_all add: build_def)
    with Failed id d1 db1 lm show ?thesis
      by (simp add: workdir_made_def)
  next
    case Miss
    let ?rs = "resolve_packages e (packages options')
                 (map (\<lambda>pkg. name pkg @ ''@'' @ version pkg) (packages options'), [], [])"
    show ?thesis
    proof (cases ?rs)
      case (Inl x)
      with assms False fp lk Miss have "ret = ret1" "w' = w1"
        by (simp_all add: build_def)
      moreover from Inl fp have "\<not> workdir_made e storageDir options w"
        by (simp add: workdir_made_def)
      ultimately show ?thesis
        using id d1 db1 miss [OF Miss] by auto
    next
      case (Inr st)
      obtain il imeta pd where st: "st = (il, imeta, pd)"
        by (cases st)
      obtain pp il' where cl: "classify_peers options' imeta pd il = (pp, il')"
        by (cases "classify_peers options' imeta pd il")
      let ?w = "w1\<lparr>dirs := insert (buildDir e) (dirs w1)\<rparr>"
      from assms False fp lk Miss Inr st cl obtain w2 where
        b: "build_in_dir e storageDir hostname options' ret1 il' imeta pp ?w = Some ((ret, Some err), w2)"
        and w': "w' = w2\<lparr>dirs := dirs w2 - {buildDir e}\<rparr>"
        by (auto simp: build_def split: option.splits)
      from build_in_dir_effect [OF b] have "dirs w2 = dirs ?w" "db w2 = db w1" "ret = ret1"
        by simp_all
      with w' id d1 db1 miss [OF Miss] show ?thesis
        by auto
    qed
  qed
qed

theorem failed_build_writes_no_record_witness:
  "map_option (snd \<circ> fst) (build yarn_fail_env ''/data'' ''esm.sh'' preact_request empty_world)
     = Some (Some (Err ''yarn add failed''))
   \<and> db (snd (the (build yarn_fail_env ''/data'' ''esm.sh'' preact_request empty_world)))
         ''v1/preact@10.5.0/es2020/preact'' = None
   \<and> buildDir yarn_fail_env
         \<notin> dirs (snd (the (build yarn_fail_env ''/data'' ''esm.sh'' preact_request empty_world)))"
proof -
  let ?b = "build yarn_fail_env ''/data'' ''esm.sh'' preact_request empty_world"
  have r: "map_option fst ?b
             = Some (\<lparr>buildID = ''v1/preact@10.5.0/es2020/preact'', importMeta = [], hasCSS = False\<rparr>,
                     Some (Err ''yarn add failed''))"
    by code_simp
  then obtain w' where
    b: "?b = Some ((\<lparr>buildID = ''v1/preact@10.5.0/es2020/preact'', importMeta = [], hasCSS = False\<rparr>,
                    Some (Err ''yarn add failed'')), w')"
    by (cases ?b) auto
  have m: "lookup_missed yarn_fail_env ''/data'' preact_request empty_world"
    by code_simp
  have d: "workdir_made yarn_fail_env ''/data'' preact_request empty_world"
    by code_simp
  from failed_build_writes_no_record [OF b] m d
  have "db w' ''v1/preact@10.5.0/es2020/preact'' = None" "buildDir yarn_fail_env \<notin> dirs w'"
    by simp_all
  with b show ?thesis
    by simp
qed

text \<open>
  C5 as the specification states it has the entry absent after every failed call. When the store holds
  a record and \<open>db.Get\<close> fails with an error other than \<open>ErrNotFound\<close>, line 122 returns the
  error and the record is still there.
\<close>

theorem failed_lookup_keeps_record:
  "map_option fst (build get_fail_env ''/data'' ''esm.sh'' preact_request css_missing_world)
     = Some (\<lparr>buildID = ''v1/preact@10.5.0/es2020/preact'', importMeta = [], hasCSS = False\<rparr>,
             Some (Err ''i/o timeout''))
   \<and> map_option (\<lambda>r. db (snd r) ''v1/preact@10.5.0/es2020/preact'')
         (build get_fail_env ''/data'' ''esm.sh'' preact_request css_missing_world)
       = Some (Some \<lparr>kv_importMeta = ''{}'', kv_css = [CHR 0x01]\<rparr>)"
  by code_simp

end
